theory Spec2Isabelle
  imports Complex_Main "HOL-Library.Sublist"
begin

section \<open>Conventions of the embedding\<close>

text \<open>
  The theory embeds the geometric primitives of \<^verbatim>\<open>sknano/core/_npcoremath.py\<close>
  (\<^verbatim>\<open>Point\<close>, \<^verbatim>\<open>Vector\<close>; \<^verbatim>\<open>sknano/core/math/_point.py\<close> holds the same
  \<^verbatim>\<open>Point\<close>) and the nanotube generator of \<^verbatim>\<open>sknano/generators\<close>.

  Components are IEEE doubles in the program; here they are real numbers, so rounding is
  not modelled. Arithmetic on points and vectors is numpy's element-wise arithmetic: the
  numpy that runs this Python 2 code hands the result array to \<^verbatim>\<open>__array_finalize__\<close>
  before the operation fills it, so the result holds the computed values. A point is
  always a \<^verbatim>\<open>float64\<close> array; a vector has the element type of the array it was
  made from, \<^verbatim>\<open>int64\<close> or \<^verbatim>\<open>float64\<close>, and a value stored into an \<^verbatim>\<open>int64\<close>
  vector is truncated toward zero (the 64-bit range is not modelled). The \<^verbatim>\<open>dtype\<close> and \<^verbatim>\<open>copy\<close> arguments keep their defaults
  (\<^verbatim>\<open>dtype=None\<close>, \<^verbatim>\<open>copy=True\<close>). Every Python exception is a value of
  \<open>py_error\<close>; a function that can raise returns \<open>py_error + 'a\<close>.
\<close>

datatype py_error = TypeError | ValueError | IndexError | AttributeError | ZeroDivisionError

section \<open>The numpy operations the program uses\<close>

text \<open>
  Element-wise arithmetic of two one-dimensional arrays broadcasts an operand of length
  one and raises \<^verbatim>\<open>ValueError\<close> on any other length mismatch.
\<close>

definition np_broadcast2 ::
  "(real \<Rightarrow> real \<Rightarrow> real) \<Rightarrow> real list \<Rightarrow> real list \<Rightarrow> py_error + real list" where
  "np_broadcast2 f xs ys =
     (if length xs = length ys then Inr (map2 f xs ys)
      else if length xs = 1 then Inr (map (f (hd xs)) ys)
      else if length ys = 1 then Inr (map (\<lambda>a. f a (hd ys)) xs)
      else Inl ValueError)"

definition np_add :: "real list \<Rightarrow> real list \<Rightarrow> py_error + real list" where
  "np_add = np_broadcast2 (+)"

definition np_sub :: "real list \<Rightarrow> real list \<Rightarrow> py_error + real list" where
  "np_sub = np_broadcast2 (-)"

text \<open>\<^verbatim>\<open>target[:] = value\<close>: the value has the target's length or length one.\<close>

definition np_assign_all :: "real list \<Rightarrow> real list \<Rightarrow> py_error + real list" where
  "np_assign_all target val =
     (if length val = length target then Inr val
      else if length val = 1 then Inr (replicate (length target) (hd val))
      else Inl ValueError)"

definition np_zeros :: "nat \<Rightarrow> real list" where
  "np_zeros k = replicate k 0"

text \<open>
  The element type of an array and the conversion of a value stored into it: C's
  conversion of a double to an integer truncates toward zero.
\<close>

datatype dtype = Int64 | Float64

definition c_trunc :: "real \<Rightarrow> int" where
  "c_trunc r = (if 0 \<le> r then \<lfloor>r\<rfloor> else \<lceil>r\<rceil>)"

fun np_cast :: "dtype \<Rightarrow> real \<Rightarrow> real" where
  "np_cast Float64 r = r"
| "np_cast Int64 r = of_int (c_trunc r)"

text \<open>An index of Python: a negative one counts from the end.\<close>

definition py_index :: "nat \<Rightarrow> int \<Rightarrow> py_error + nat" where
  "py_index len i =
     (let j = (if i < 0 then int len + i else i)
      in if 0 \<le> j \<and> j < int len then Inr (nat j) else Inl IndexError)"

text \<open>
  \<^verbatim>\<open>a[np.where(np.abs(a) <= epsilon)] = 0.0\<close>: first the indices are collected, then
  each of them is written.
\<close>

definition np_where_abs_le :: "real list \<Rightarrow> real \<Rightarrow> nat list" where
  "np_where_abs_le xs epsilon = filter (\<lambda>i. \<bar>xs ! i\<bar> \<le> epsilon) [0..<length xs]"

definition np_put :: "real list \<Rightarrow> nat list \<Rightarrow> real \<Rightarrow> real list" where
  "np_put xs idxs c = fold (\<lambda>i acc. acc[i := c]) idxs xs"

definition rezero_array :: "real list \<Rightarrow> real \<Rightarrow> real list" where
  "rezero_array a epsilon = np_put a (np_where_abs_le a epsilon) 0"

section \<open>Point\<close>

datatype axis = X | Y | Z

fun axis_index :: "axis \<Rightarrow> nat" where
  "axis_index X = 0"
| "axis_index Y = 1"
| "axis_index Z = 2"

text \<open>
  The test of \<^verbatim>\<open>__getattr__\<close> and \<^verbatim>\<open>__setattr__\<close>:
  \<^verbatim>\<open>nd == 2 and name in ('x', 'y')\<close> or \<^verbatim>\<open>nd == 3 and name in ('x', 'y', 'z')\<close>.
\<close>

fun is_alias :: "int \<Rightarrow> axis \<Rightarrow> bool" where
  "is_alias k Z = (k = 3)"
| "is_alias k ax = (k = 2 \<or> k = 3)"

text \<open>
  A point: its components, the attribute \<^verbatim>\<open>nd\<close>, and the plain instance attributes
  that a write to \<^verbatim>\<open>x\<close>, \<^verbatim>\<open>y\<close> or \<^verbatim>\<open>z\<close> creates when the name is not an alias
  of a component (newest first).
\<close>

record point =
  p_coords :: "real list"
  p_nd :: int
  p_attrs :: "(axis \<times> real) list"

datatype seq_kind = PyTuple | PyList | NdArray

text \<open>
  The argument \<^verbatim>\<open>p\<close> of \<^verbatim>\<open>Point.__new__\<close>: \<^verbatim>\<open>None\<close>, a tuple, list or array
  whose components are numbers or \<^verbatim>\<open>None\<close>, an existing \<^verbatim>\<open>Point\<close>, or any other
  object. The argument \<^verbatim>\<open>nd\<close>: \<^verbatim>\<open>None\<close>, an integer, or an object that is not a
  number.
\<close>

datatype pt_arg = PNone | PSeq seq_kind "real option list" | PPoint point | POther

datatype nd_arg = NdNone | NdNum int | NdOther

text \<open>
  The loop \<^verbatim>\<open>for i, coord in enumerate(p[:]): if coord is None: p[i] = 0.0\<close>. The
  assignment raises \<^verbatim>\<open>TypeError\<close> on a tuple.
\<close>

fun replace_none :: "seq_kind \<Rightarrow> real option list \<Rightarrow> py_error + real list" where
  "replace_none k [] = Inr []"
| "replace_none k (Some c # cs) =
     (case replace_none k cs of Inl e \<Rightarrow> Inl e | Inr cs' \<Rightarrow> Inr (c # cs'))"
| "replace_none k (None # cs) =
     (if k = PyTuple then Inl TypeError
      else (case replace_none k cs of Inl e \<Rightarrow> Inl e | Inr cs' \<Rightarrow> Inr (0 # cs')))"

definition Point_new :: "pt_arg \<Rightarrow> nd_arg \<Rightarrow> py_error + point" where
  "Point_new p ndarg =
     (case p of
        PPoint pt \<Rightarrow>
          Inr \<lparr>p_coords = p_coords pt, p_nd = int (length (p_coords pt)), p_attrs = []\<rparr>
      | PSeq k cs \<Rightarrow>
          (let p' = (case replace_none k cs of
                       Inl e \<Rightarrow> np_zeros (length cs)
                     | Inr cs' \<Rightarrow> cs')
           in Inr \<lparr>p_coords = p', p_nd = int (length p'), p_attrs = []\<rparr>)
      | _ \<Rightarrow>
          (let k = (case ndarg of NdNum j \<Rightarrow> j | _ \<Rightarrow> 3)
           in if k < 0 then Inl ValueError
              else Inr \<lparr>p_coords = np_zeros (nat k), p_nd = k, p_attrs = []\<rparr>))"

text \<open>
  Reading \<^verbatim>\<open>pt.x\<close>: an instance attribute of that name wins; otherwise
  \<^verbatim>\<open>__getattr__\<close> decides on \<^verbatim>\<open>len(self)\<close>.
\<close>

definition Point_getattr :: "point \<Rightarrow> axis \<Rightarrow> py_error + real" where
  "Point_getattr pt ax =
     (case map_of (p_attrs pt) ax of
        Some c \<Rightarrow> Inr c
      | None \<Rightarrow>
          if is_alias (int (length (p_coords pt))) ax
          then Inr (p_coords pt ! axis_index ax)
          else Inl AttributeError)"

text \<open>Writing \<^verbatim>\<open>pt.x = value\<close>: \<^verbatim>\<open>__setattr__\<close> decides on the attribute \<^verbatim>\<open>nd\<close>.\<close>

definition Point_setattr :: "point \<Rightarrow> axis \<Rightarrow> real \<Rightarrow> py_error + point" where
  "Point_setattr pt ax val =
     (if is_alias (p_nd pt) ax
      then (if axis_index ax < length (p_coords pt)
            then Inr (pt\<lparr>p_coords := (p_coords pt)[axis_index ax := val]\<rparr>)
            else Inl IndexError)
      else Inr (pt\<lparr>p_attrs := (ax, val) # p_attrs pt\<rparr>))"

definition rezero_coords :: "point \<Rightarrow> real \<Rightarrow> point" where
  "rezero_coords pt epsilon = pt\<lparr>p_coords := rezero_array (p_coords pt) epsilon\<rparr>"

text \<open>
  What the constructor's two tests accept: \<^verbatim>\<open>isinstance(p, (tuple, list, np.ndarray))\<close>
  (a \<^verbatim>\<open>Point\<close> is an array) and \<^verbatim>\<open>isinstance(nd, numbers.Number)\<close>.
\<close>

fun is_sequence :: "pt_arg \<Rightarrow> bool" where
  "is_sequence (PSeq k cs) = True"
| "is_sequence (PPoint pt) = True"
| "is_sequence p = False"

fun is_number :: "nd_arg \<Rightarrow> bool" where
  "is_number (NdNum k) = True"
| "is_number ndarg = False"

text \<open>
  The reading of ``a missing component defaults to zero, a supplied one is kept'', to
  compare with what \<open>Point_new\<close> returns.
\<close>

definition fill_zero :: "real option list \<Rightarrow> real list" where
  "fill_zero cs = map (\<lambda>c. case c of None \<Rightarrow> 0 | Some r \<Rightarrow> r) cs"

section \<open>Vector\<close>

text \<open>
  A vector holds references to two \<^verbatim>\<open>Point\<close> objects, \<^verbatim>\<open>_p\<close> and \<^verbatim>\<open>_p0\<close>, and
  mutates them in place. The points live in a store, a list of points in which a
  reference is an index; a new object is appended. A reference that is \<open>None\<close> is
  Python's \<^verbatim>\<open>None\<close>. The vector that a method mutates is passed in and returned.
\<close>

type_synonym heap = "point list"

record vector =
  v_comps :: "real list"
  v_dtype :: dtype
  v_nd :: int
  v_p :: "nat option"
  v_p0 :: "nat option"
  v_attrs :: "(axis \<times> real) list"

text \<open>
  A number of a sequence is an integer or a float. \<^verbatim>\<open>np.asarray(v)\<close> makes an
  \<^verbatim>\<open>int64\<close> array of a non-empty sequence of integers and a \<^verbatim>\<open>float64\<close> array of
  any other sequence of numbers.
\<close>

datatype pynum = PyInt int | PyFloat real

fun num_val :: "pynum \<Rightarrow> real" where
  "num_val (PyInt k) = of_int k"
| "num_val (PyFloat r) = r"

fun is_py_int :: "pynum \<Rightarrow> bool" where
  "is_py_int (PyInt k) = True"
| "is_py_int (PyFloat r) = False"

definition seq_dtype :: "pynum list \<Rightarrow> dtype" where
  "seq_dtype cs = (if cs \<noteq> [] \<and> list_all is_py_int cs then Int64 else Float64)"

text \<open>
  The argument \<^verbatim>\<open>v\<close> of \<^verbatim>\<open>Vector.__new__\<close>: a tuple, list or array of numbers, an
  existing \<^verbatim>\<open>Vector\<close>, or anything else (\<^verbatim>\<open>None\<close> included).
\<close>

datatype vec_arg = VSeq "pynum list" | VVec vector | VOther

definition py_bind :: "py_error + 'a \<Rightarrow> ('a \<Rightarrow> py_error + 'b) \<Rightarrow> py_error + 'b" where
  "py_bind r f = (case r of Inl e \<Rightarrow> Inl e | Inr a \<Rightarrow> f a)"

text \<open>
  \<^verbatim>\<open>try: self._p.x = self._p0.x + value  except AttributeError: pass\<close>.
  The right-hand side is evaluated first; \<^verbatim>\<open>None\<close> has no attribute \<^verbatim>\<open>x\<close>.
\<close>

definition sync_p :: "heap \<Rightarrow> vector \<Rightarrow> axis \<Rightarrow> real \<Rightarrow> py_error + heap" where
  "sync_p h vec ax val =
     (case v_p0 vec of
        None \<Rightarrow> Inr h
      | Some b \<Rightarrow>
          (case Point_getattr (h ! b) ax of
             Inl e \<Rightarrow> (if e = AttributeError then Inr h else Inl e)
           | Inr c \<Rightarrow>
               (case v_p vec of
                  None \<Rightarrow> Inr h
                | Some a \<Rightarrow>
                    (case Point_setattr (h ! a) ax (c + val) of
                       Inl e \<Rightarrow> (if e = AttributeError then Inr h else Inl e)
                     | Inr pt \<Rightarrow> Inr (h[a := pt])))))"

text \<open>
  \<^verbatim>\<open>Vector.__setattr__\<close> for the names \<^verbatim>\<open>x\<close>, \<^verbatim>\<open>y\<close>, \<^verbatim>\<open>z\<close>: the component
  stores the value converted to the vector's element type, the point receives
  \<^verbatim>\<open>self._p0.x + value\<close> with the value as given.
\<close>

definition Vector_setattr ::
  "heap \<Rightarrow> vector \<Rightarrow> axis \<Rightarrow> real \<Rightarrow> py_error + (heap \<times> vector)" where
  "Vector_setattr h vec ax val =
     (if is_alias (v_nd vec) ax
      then (if axis_index ax < length (v_comps vec)
            then (let vec' = vec\<lparr>v_comps := (v_comps vec)
                                      [axis_index ax := np_cast (v_dtype vec) val]\<rparr>
                  in py_bind (sync_p h vec' ax val) (\<lambda>h'. Inr (h', vec')))
            else Inl IndexError)
      else Inr (h, vec\<lparr>v_attrs := (ax, val) # v_attrs vec\<rparr>))"

text \<open>
  \<^verbatim>\<open>vec[i] = value\<close>: \<^verbatim>\<open>Vector\<close> defines no \<^verbatim>\<open>__setitem__\<close>, so the write is the
  one of \<^verbatim>\<open>numpy.ndarray\<close> and touches the components only.
\<close>

definition Vector_setitem ::
  "heap \<Rightarrow> vector \<Rightarrow> int \<Rightarrow> real \<Rightarrow> py_error + (heap \<times> vector)" where
  "Vector_setitem h vec i val =
     py_bind (py_index (length (v_comps vec)) i)
       (\<lambda>j. Inr (h, vec\<lparr>v_comps := (v_comps vec)[j := np_cast (v_dtype vec) val]\<rparr>))"

text \<open>
  The setters of the properties \<^verbatim>\<open>p\<close> and \<^verbatim>\<open>p0\<close>:
  \<^verbatim>\<open>self._p[:] = value; self[:] = self._p - self._p0\<close>. Subscripting or subtracting
  \<^verbatim>\<open>None\<close> raises \<^verbatim>\<open>TypeError\<close>. The difference is a \<^verbatim>\<open>float64\<close> array and
  is converted to the vector's element type when it is stored.
\<close>

definition recompute_v :: "heap \<Rightarrow> vector \<Rightarrow> py_error + (heap \<times> vector)" where
  "recompute_v h vec =
     (case v_p vec of
        None \<Rightarrow> Inl TypeError
      | Some a \<Rightarrow>
          (case v_p0 vec of
             None \<Rightarrow> Inl TypeError
           | Some b \<Rightarrow>
               py_bind (np_sub (p_coords (h ! a)) (p_coords (h ! b)))
                 (\<lambda>d. py_bind (np_assign_all (v_comps vec) d)
                    (\<lambda>cs. Inr (h, vec\<lparr>v_comps := map (np_cast (v_dtype vec)) cs\<rparr>)))))"

definition Vector_set_p :: "heap \<Rightarrow> vector \<Rightarrow> real list \<Rightarrow> py_error + (heap \<times> vector)" where
  "Vector_set_p h vec val =
     (case v_p vec of
        None \<Rightarrow> Inl TypeError
      | Some a \<Rightarrow>
          py_bind (np_assign_all (p_coords (h ! a)) val)
            (\<lambda>cs. recompute_v (h[a := (h ! a)\<lparr>p_coords := cs\<rparr>]) vec))"

definition Vector_set_p0 :: "heap \<Rightarrow> vector \<Rightarrow> real list \<Rightarrow> py_error + (heap \<times> vector)" where
  "Vector_set_p0 h vec val =
     (case v_p0 vec of
        None \<Rightarrow> Inl TypeError
      | Some b \<Rightarrow>
          py_bind (np_assign_all (p_coords (h ! b)) val)
            (\<lambda>cs. recompute_v (h[b := (h ! b)\<lparr>p_coords := cs\<rparr>]) vec))"

text \<open>
  The end of \<^verbatim>\<open>Vector.__new__\<close>:
  \<^verbatim>\<open>if nd == 2: vec.x, vec.y = vec  elif nd == 3: vec.x, vec.y, vec.z = vec\<close>.
  Unpacking a vector of another length raises \<^verbatim>\<open>ValueError\<close> before any write.
\<close>

definition init_aliases :: "heap \<Rightarrow> vector \<Rightarrow> py_error + (heap \<times> vector)" where
  "init_aliases h vec =
     (let cs = v_comps vec in
      if v_nd vec = 2 then
        (if length cs \<noteq> 2 then Inl ValueError
         else py_bind (Vector_setattr h vec X (cs ! 0))
                (\<lambda>(h1, vec1). Vector_setattr h1 vec1 Y (cs ! 1)))
      else if v_nd vec = 3 then
        (if length cs \<noteq> 3 then Inl ValueError
         else py_bind (Vector_setattr h vec X (cs ! 0))
                (\<lambda>(h1, vec1). py_bind (Vector_setattr h1 vec1 Y (cs ! 1))
                   (\<lambda>(h2, vec2). Vector_setattr h2 vec2 Z (cs ! 2))))
      else Inr (h, vec))"

text \<open>
  \<^verbatim>\<open>Vector.__new__(cls, v, nd, p, p0)\<close>. The sum \<^verbatim>\<open>p0 + v\<close> and the difference
  \<^verbatim>\<open>p - p0\<close> are new \<^verbatim>\<open>Point\<close> objects whose attribute \<^verbatim>\<open>nd\<close> is the length of the
  left operand (\<^verbatim>\<open>Point.__array_finalize__\<close>). The two points of the new vector are
  appended to the store, the origin first. The components keep the element type of
  \<^verbatim>\<open>np.asarray(v)\<close>; a vector made from two points is \<^verbatim>\<open>float64\<close>.
\<close>

definition Vector_new ::
  "heap \<Rightarrow> vec_arg \<Rightarrow> nd_arg \<Rightarrow> pt_arg \<Rightarrow> pt_arg \<Rightarrow> py_error + (heap \<times> vector)" where
  "Vector_new h v ndarg p p0 =
     (case v of
        VVec vec \<Rightarrow>
          Inr (h, \<lparr>v_comps = v_comps vec, v_dtype = v_dtype vec,
                   v_nd = int (length (v_comps vec)),
                   v_p = v_p vec, v_p0 = v_p0 vec, v_attrs = []\<rparr>)
      | VSeq cs \<Rightarrow>
          (let k = int (length cs) in
           py_bind (Point_new p0 (NdNum k))
             (\<lambda>pt0. py_bind (np_add (p_coords pt0) (map num_val cs))
                (\<lambda>s. init_aliases
                        (h @ [pt0, \<lparr>p_coords = s, p_nd = int (length (p_coords pt0)),
                                     p_attrs = []\<rparr>])
                        \<lparr>v_comps = map num_val cs, v_dtype = seq_dtype cs, v_nd = k,
                         v_p = Some (Suc (length h)), v_p0 = Some (length h),
                         v_attrs = []\<rparr>)))
      | VOther \<Rightarrow>
          (let k = (case ndarg of NdNum j \<Rightarrow> j | _ \<Rightarrow> 3) in
           py_bind (Point_new p (NdNum k))
             (\<lambda>pt. py_bind (Point_new p0 (NdNum k))
                (\<lambda>pt0. py_bind (np_sub (p_coords pt) (p_coords pt0))
                   (\<lambda>d. init_aliases (h @ [pt0, pt])
                          \<lparr>v_comps = d, v_dtype = Float64, v_nd = k,
                           v_p = Some (Suc (length h)), v_p0 = Some (length h),
                           v_attrs = []\<rparr>)))))"

definition rezero_components :: "vector \<Rightarrow> real \<Rightarrow> vector" where
  "rezero_components vec epsilon =
     vec\<lparr>v_comps := np_put (v_comps vec) (np_where_abs_le (v_comps vec) epsilon)
                       (np_cast (v_dtype vec) 0)\<rparr>"

text \<open>
  A vector bound to two distinct points of its own dimensionality, none of which carries
  a stray instance attribute. \<open>Vector_new\<close> builds such vectors (lemma
  \<open>Vector_new_seq_bound\<close> below).
\<close>

definition bound_vec :: "heap \<Rightarrow> vector \<Rightarrow> bool" where
  "bound_vec h vec =
     (case v_p vec of
        None \<Rightarrow> False
      | Some a \<Rightarrow>
          (case v_p0 vec of
             None \<Rightarrow> False
           | Some b \<Rightarrow>
               a < length h \<and> b < length h \<and> a \<noteq> b
               \<and> length (p_coords (h ! a)) = length (v_comps vec)
               \<and> length (p_coords (h ! b)) = length (v_comps vec)
               \<and> v_nd vec = int (length (v_comps vec))
               \<and> p_nd (h ! a) = int (length (v_comps vec))
               \<and> p_nd (h ! b) = int (length (v_comps vec))
               \<and> p_attrs (h ! a) = [] \<and> p_attrs (h ! b) = []))"

text \<open>The invariant \<open>v = p - p0\<close> of a bound vector, component by component.\<close>

definition v_eq_p_minus_p0 :: "heap \<Rightarrow> vector \<Rightarrow> bool" where
  "v_eq_p_minus_p0 h vec =
     (case v_p vec of
        None \<Rightarrow> False
      | Some a \<Rightarrow>
          (case v_p0 vec of
             None \<Rightarrow> False
           | Some b \<Rightarrow> v_comps vec = map2 (-) (p_coords (h ! a)) (p_coords (h ! b))))"

section \<open>The nanotube generator\<close>

text \<open>
  \<^verbatim>\<open>SWNTGenerator\<close> reads its lattice scalars from the attributes that the class
  \<^verbatim>\<open>SWNT\<close> of \<^verbatim>\<open>sknano.structures\<close> computes; that class and
  \<^verbatim>\<open>compute_chiral_angle\<close> are not part of the sources at hand, so the scalars are
  fields of the record below: \<open>swnt_aCh\<close> is the value of
  \<^verbatim>\<open>compute_chiral_angle(n=n, m=m, rad2deg=False)\<close>, \<open>swnt_L0\<close> and \<open>fix_Lz\<close> are
  the attributes \<^verbatim>\<open>_L0\<close> and \<^verbatim>\<open>_fix_Lz\<close>.
\<close>

record swnt =
  swnt_n :: int
  swnt_m :: int
  swnt_bond :: real
  swnt_M :: int
  swnt_T :: real
  swnt_N :: int
  swnt_rt :: real
  swnt_aCh :: real
  swnt_nz :: real
  element1 :: string
  element2 :: string
  swnt_L0 :: "real option"
  fix_Lz :: bool

text \<open>
  Modelled from the spec: the class \<^verbatim>\<open>Atom\<close> (imported as \<^verbatim>\<open>GeneratorAtom\<close>) is
  missing from the sources. An atom is an element label with a position of three
  coordinates; \<^verbatim>\<open>rezero\<close> snaps every coordinate whose absolute value is at most the
  point tolerance \<open>1e-10\<close> to zero. The coordinates \<open>x\<close> and \<open>y\<close> can be numpy's
  \<^verbatim>\<open>nan\<close> (see \<open>np_div\<close> below), which is \<open>None\<close> here and which no comparison
  changes.
\<close>

record atom =
  element :: string
  atom_x :: "real option"
  atom_y :: "real option"
  atom_z :: real

definition point_tolerance :: real where
  "point_tolerance = 1 / 10 ^ 10"

definition snap :: "real \<Rightarrow> real \<Rightarrow> real" where
  "snap epsilon c = (if \<bar>c\<bar> \<le> epsilon then 0 else c)"

definition atom_rezero :: "atom \<Rightarrow> atom" where
  "atom_rezero a =
     a\<lparr>atom_x := map_option (snap point_tolerance) (atom_x a),
       atom_y := map_option (snap point_tolerance) (atom_y a),
       atom_z := snap point_tolerance (atom_z a)\<rparr>"

definition eps :: real where
  "eps = 1 / 100"

text \<open>
  \<^verbatim>\<open>while z > T - eps: z -= T\<close>. The loop need not end (it does not for \<open>T \<le> 0\<close>), so
  its result is an option: \<open>None\<close> is a loop that runs forever.
\<close>

partial_function (option) wrap_z :: "real \<Rightarrow> real \<Rightarrow> real option" where
  "wrap_z T z = (if z > T - eps then wrap_z T (z - T) else Some z)"

text \<open>
  The body of \<^verbatim>\<open>for i in xrange(1, N + 1)\<close> in \<^verbatim>\<open>generate_unit_cell\<close>, and the loop
  itself over the list of indices, appending to the unit cell.
\<close>

definition basis_atoms ::
  "swnt \<Rightarrow> real \<Rightarrow> real \<Rightarrow> real \<Rightarrow> real option \<Rightarrow> int \<Rightarrow> (atom \<times> atom) option" where
  "basis_atoms P tau dtau psi dpsi i =
     (let x1 = swnt_rt P * cos (of_int i * psi);
          y1 = swnt_rt P * sin (of_int i * psi)
      in case wrap_z (swnt_T P) (of_int i * tau) of
           None \<Rightarrow> None
         | Some z1 \<Rightarrow>
             (let atom1 = atom_rezero
                            \<lparr>element = element1 P, atom_x = Some x1, atom_y = Some y1,
                             atom_z = z1\<rparr>;
                  x2 = map_option (\<lambda>d. swnt_rt P * cos (of_int i * psi + d)) dpsi;
                  y2 = map_option (\<lambda>d. swnt_rt P * sin (of_int i * psi + d)) dpsi
              in case wrap_z (swnt_T P) (of_int i * tau - dtau) of
                   None \<Rightarrow> None
                 | Some z2 \<Rightarrow>
                     Some (atom1,
                           atom_rezero
                             \<lparr>element = element2 P, atom_x = x2, atom_y = y2,
                              atom_z = z2\<rparr>)))"

fun unit_cell_loop ::
  "swnt \<Rightarrow> real \<Rightarrow> real \<Rightarrow> real \<Rightarrow> real option \<Rightarrow> int list \<Rightarrow> atom list
     \<Rightarrow> atom list option" where
  "unit_cell_loop P tau dtau psi dpsi [] unit_cell = Some unit_cell"
| "unit_cell_loop P tau dtau psi dpsi (i # rest) unit_cell =
     (case basis_atoms P tau dtau psi dpsi i of
        None \<Rightarrow> None
      | Some (atom1, atom2) \<Rightarrow>
          unit_cell_loop P tau dtau psi dpsi rest (unit_cell @ [atom1] @ [atom2]))"

text \<open>
  The scalars that \<^verbatim>\<open>generate_unit_cell\<close> computes before its loop:
  \<^verbatim>\<open>tau = M * T / N\<close>, \<^verbatim>\<open>dtau = bond * np.sin(np.pi / 6 - aCh)\<close>,
  \<^verbatim>\<open>psi = 2 * np.pi / N\<close>, \<^verbatim>\<open>dpsi = bond * np.cos(np.pi / 6 - aCh) / rt\<close>.
\<close>

definition tau_of :: "swnt \<Rightarrow> real" where
  "tau_of P = of_int (swnt_M P) * swnt_T P / of_int (swnt_N P)"

definition dtau_of :: "swnt \<Rightarrow> real" where
  "dtau_of P = swnt_bond P * sin (pi / 6 - swnt_aCh P)"

definition psi_of :: "swnt \<Rightarrow> real" where
  "psi_of P = 2 * pi / of_int (swnt_N P)"

text \<open>
  The quotient \<^verbatim>\<open>bond * np.cos(..) / rt\<close> is a division of a numpy \<^verbatim>\<open>float64\<close>: for
  \<open>rt = 0\<close> it raises nothing and gives \<^verbatim>\<open>inf\<close> or \<^verbatim>\<open>nan\<close>, of which
  \<^verbatim>\<open>rt * np.cos(i * psi + dpsi)\<close> makes \<^verbatim>\<open>nan\<close>. \<open>None\<close> is such a value.
\<close>

definition np_div :: "real \<Rightarrow> real \<Rightarrow> real option" where
  "np_div a b = (if b = 0 then None else Some (a / b))"

definition dpsi_of :: "swnt \<Rightarrow> real option" where
  "dpsi_of P = np_div (swnt_bond P * cos (pi / 6 - swnt_aCh P)) (swnt_rt P)"

text \<open>
  \<^verbatim>\<open>generate_unit_cell\<close>. For \<open>N = 0\<close> the division of the Python float
  \<^verbatim>\<open>2 * np.pi\<close> by \<^verbatim>\<open>N\<close> (or already \<^verbatim>\<open>M * T / N\<close>) raises
  \<^verbatim>\<open>ZeroDivisionError\<close> (true division, \<^verbatim>\<open>from __future__ import division\<close>).
\<close>

definition generate_unit_cell :: "swnt \<Rightarrow> (py_error + atom list) option" where
  "generate_unit_cell P =
     (if swnt_N P = 0 then Some (Inl ZeroDivisionError)
      else
        (let tau = tau_of P; dtau = dtau_of P; psi = psi_of P; dpsi = dpsi_of P
         in map_option Inr (unit_cell_loop P tau dtau psi dpsi [1..swnt_N P] [])))"

text \<open>
  Two tubes at the default bond length 1.42, with the scalars that their chiral indices
  give: \<open>N = 2 (n\<^sup>2 + n m + m\<^sup>2) / d\<^sub>R\<close>, \<open>T = 3 bond \<surd>(n\<^sup>2 + n m + m\<^sup>2) / d\<^sub>R\<close>,
  \<open>rt = \<surd>3 bond \<surd>(n\<^sup>2 + n m + m\<^sup>2) / (2 \<pi>)\<close>, the chiral angle with
  \<open>sin (\<pi>/6 - aCh) = (n - m) / (2 \<surd>(n\<^sup>2 + n m + m\<^sup>2))\<close>, and \<open>M = m p - n q\<close> for
  the symmetry vector \<open>(p, q)\<close>. For \<open>(10, 0)\<close>: \<open>d\<^sub>R = 10\<close>, \<open>(p, q) = (1, -1)\<close>. For
  \<open>(63, 17)\<close>: \<open>n\<^sup>2 + n m + m\<^sup>2 = 73\<^sup>2\<close>, \<open>d\<^sub>R = 1\<close>, \<open>(p, q) = (19, -28)\<close>.
\<close>

definition tube_10_0 :: swnt where
  "tube_10_0 =
     \<lparr>swnt_n = 10, swnt_m = 0, swnt_bond = 71 / 50, swnt_M = 10, swnt_T = 213 / 50,
      swnt_N = 20, swnt_rt = sqrt 3 * (71 / 50) * 10 / (2 * pi), swnt_aCh = 0,
      swnt_nz = 5, element1 = ''C'', element2 = ''C'', swnt_L0 = None, fix_Lz = False\<rparr>"

definition tube_63_17 :: swnt where
  "tube_63_17 =
     \<lparr>swnt_n = 63, swnt_m = 17, swnt_bond = 71 / 50, swnt_M = 2087,
      swnt_T = 15549 / 50, swnt_N = 10658,
      swnt_rt = sqrt 3 * (71 / 50) * 73 / (2 * pi),
      swnt_aCh = pi / 6 - arcsin (23 / 73),
      swnt_nz = 1, element1 = ''C'', element2 = ''C'', swnt_L0 = None, fix_Lz = False\<rparr>"

text \<open>
  \<^verbatim>\<open>generate_structure_data\<close>. Its first statement,
  \<^verbatim>\<open>self.structure_atoms = Atoms()\<close>, assigns to \<^verbatim>\<open>structure_atoms\<close>, which
  \<^verbatim>\<open>GeneratorMixin\<close> declares as a property with a getter only: the assignment raises
  \<^verbatim>\<open>AttributeError\<close>, unless a class that comes before \<^verbatim>\<open>GeneratorMixin\<close> in the
  method resolution order makes the attribute assignable. The only such class is
  \<^verbatim>\<open>SWNT\<close>, which is not among the sources: \<open>has_setter\<close> says whether it does, and
  is \<open>False\<close> for the sources as they are. After the assignment come
  \<^verbatim>\<open>dr = Vector([0.0, 0.0, nz * self.T])\<close> and \<^verbatim>\<open>nt_atom.r = uc_atom.r + dr\<close>, for
  \<^verbatim>\<open>nz in xrange(int(np.ceil(self.nz)))\<close>.
\<close>

definition translate_atom :: "atom \<Rightarrow> real \<times> real \<times> real \<Rightarrow> atom" where
  "translate_atom uc_atom dr =
     (case dr of (dx, dy, dz) \<Rightarrow>
        \<lparr>element = element uc_atom,
         atom_x = map_option (\<lambda>c. c + dx) (atom_x uc_atom),
         atom_y = map_option (\<lambda>c. c + dy) (atom_y uc_atom),
         atom_z = atom_z uc_atom + dz\<rparr>)"

definition replicate_unit_cell :: "swnt \<Rightarrow> atom list \<Rightarrow> atom list \<Rightarrow> atom list" where
  "replicate_unit_cell P unit_cell structure_atoms =
     fold (\<lambda>nz atoms.
             fold (\<lambda>uc_atom acc. acc @ [translate_atom uc_atom (0, 0, real nz * swnt_T P)])
               unit_cell atoms)
       [0..<nat \<lceil>swnt_nz P\<rceil>] structure_atoms"


section \<open>Saving the structure\<close>

text \<open>
  The calls that \<^verbatim>\<open>save_data\<close> makes on the atom collection and on the writer are
  calls of classes outside the sources at hand (\<^verbatim>\<open>Atoms.clip_bounds\<close>,
  \<^verbatim>\<open>Atoms.center_CM\<close>, \<^verbatim>\<open>Atoms.rotate\<close>, \<^verbatim>\<open>StructureIO.write\<close>). The model
  records each call, with its arguments, in the order in which it is made.
\<close>

datatype bound = NegInf | Fin real | PosInf

datatype call =
    Clip_bounds "bound list" "bound list" bool
  | Center_CM
  | Rotate real "axis option" bool
  | Write string "string option" string

text \<open>
  The file name and format of \<^verbatim>\<open>GeneratorMixin.save_data\<close>;
  \<^verbatim>\<open>supported_structure_formats\<close> and \<^verbatim>\<open>default_structure_format\<close> are constants
  of \<^verbatim>\<open>sknano.io\<close> and are parameters here.
\<close>

definition resolve_format :: "string list \<Rightarrow> string \<Rightarrow> string \<Rightarrow> string option \<Rightarrow> string" where
  "resolve_format supported default_format fname structure_format =
     (case (structure_format, find (\<lambda>ext. suffix ext fname) supported) of
        (None, Some ext) \<Rightarrow> ext
      | (None, None) \<Rightarrow> default_format
      | (Some sf, _) \<Rightarrow> (if sf \<in> set supported then sf else default_format))"

definition resolve_fname :: "string \<Rightarrow> string \<Rightarrow> string" where
  "resolve_fname fname structure_format =
     (if suffix structure_format fname then fname else fname @ ''.'' @ structure_format)"

definition GeneratorMixin_save_data ::
  "string list \<Rightarrow> string \<Rightarrow> call list \<Rightarrow> string \<Rightarrow> string option \<Rightarrow> string option
     \<Rightarrow> real option \<Rightarrow> axis option \<Rightarrow> bool \<Rightarrow> bool \<Rightarrow> call list" where
  "GeneratorMixin_save_data supported default_format calls fname outpath structure_format
       rotation_angle rot_axis deg2rad center_CM =
     (let sf = resolve_format supported default_format fname structure_format;
          fname' = resolve_fname fname sf;
          calls1 = (if center_CM then calls @ [Center_CM] else calls);
          calls2 = (case rotation_angle of
                      None \<Rightarrow> calls1
                    | Some angle \<Rightarrow> calls1 @ [Rotate angle rot_axis deg2rad])
      in calls2 @ [Write fname' outpath sf])"

text \<open>
  \<^verbatim>\<open>SWNTGenerator.save_data\<close>. The default file name is built from \<^verbatim>\<open>n\<close>, \<^verbatim>\<open>m\<close>
  and \<^verbatim>\<open>nz\<close> with \<^verbatim>\<open>pluralize\<close>, which is not in the sources at hand: it is the
  parameter \<open>default_fname\<close>.
\<close>

definition SWNTGenerator_save_data ::
  "string list \<Rightarrow> string \<Rightarrow> string \<Rightarrow> swnt \<Rightarrow> call list \<Rightarrow> string option \<Rightarrow> string option
     \<Rightarrow> string option \<Rightarrow> real option \<Rightarrow> axis option \<Rightarrow> bool \<Rightarrow> bool \<Rightarrow> call list" where
  "SWNTGenerator_save_data supported default_format default_fname P calls fname outpath
       structure_format rotation_angle rot_axis deg2rad center_CM =
     (let fname' = (case fname of None \<Rightarrow> default_fname | Some f \<Rightarrow> f);
          calls1 = (case swnt_L0 P of
                      None \<Rightarrow> calls
                    | Some L0 \<Rightarrow>
                        if fix_Lz P
                        then calls @ [Clip_bounds [NegInf, NegInf, Fin 0]
                                        [PosInf, PosInf, Fin (10 * L0 + 0.25)] True]
                        else calls);
          calls2 = (if center_CM then calls1 @ [Center_CM] else calls1)
      in GeneratorMixin_save_data supported default_format calls2 fname' outpath
           structure_format rotation_angle rot_axis deg2rad False)"

text \<open>The place of a call in the pipeline.\<close>

fun stage :: "call \<Rightarrow> nat" where
  "stage (Clip_bounds pmin pmax c) = 0"
| "stage Center_CM = 1"
| "stage (Rotate angle ax d) = 2"
| "stage (Write f outp sf) = 3"

section \<open>Properties of Point\<close>

lemma np_put_length: "length (np_put xs idxs c) = length xs"
  unfolding np_put_def by (induction idxs arbitrary: xs) auto

lemma np_put_nth:
  "i < length xs \<Longrightarrow> np_put xs idxs c ! i = (if i \<in> set idxs then c else xs ! i)"
  unfolding np_put_def
proof (induction idxs arbitrary: xs)
  case Nil
  then show ?case by simp
next
  case (Cons j js)
  have "fold (\<lambda>i acc. acc[i := c]) js (xs[j := c]) ! i
          = (if i \<in> set js then c else xs[j := c] ! i)"
    using Cons.IH [of "xs[j := c]"] Cons.prems by simp
  then show ?case using Cons.prems by (auto simp: nth_list_update)
qed

lemma rezero_array_map:
  "rezero_array a epsilon = map (\<lambda>c. if \<bar>c\<bar> \<le> epsilon then 0 else c) a"
proof (rule nth_equalityI)
  show "length (rezero_array a epsilon)
          = length (map (\<lambda>c. if \<bar>c\<bar> \<le> epsilon then 0 else c) a)"
    by (simp add: rezero_array_def np_put_length)
next
  fix i assume "i < length (rezero_array a epsilon)"
  then have i: "i < length a" by (simp add: rezero_array_def np_put_length)
  then show "rezero_array a epsilon ! i
               = map (\<lambda>c. if \<bar>c\<bar> \<le> epsilon then 0 else c) a ! i"
    by (simp add: rezero_array_def np_put_nth np_where_abs_le_def)
qed

lemma rezero_array_idem:
  "rezero_array (rezero_array a epsilon) epsilon = rezero_array a epsilon"
  by (simp add: rezero_array_map)

lemma replace_none_list:
  "k \<noteq> PyTuple \<Longrightarrow> replace_none k cs = Inr (fill_zero cs)"
proof (induction cs)
  case Nil
  then show ?case by (simp add: fill_zero_def)
next
  case (Cons c cs)
  then show ?case by (cases c) (simp_all add: fill_zero_def)
qed

lemma replace_none_tuple:
  "replace_none PyTuple cs = (if None \<in> set cs then Inl TypeError else Inr (fill_zero cs))"
proof (induction cs)
  case Nil
  then show ?case by (simp add: fill_zero_def)
next
  case (Cons c cs)
  then show ?case by (cases c) (auto simp: fill_zero_def)
qed

text \<open>
  C6 as stated fails: a tuple with a missing component is not repaired in place (a tuple
  cannot be assigned to), the \<^verbatim>\<open>TypeError\<close> is caught and the point is all zero, so
  the supplied components \<open>1\<close> and \<open>3\<close> are lost.
\<close>

theorem Point_new_tuple_none_counterexample:
  "Point_new (PSeq PyTuple [Some 1, None, Some 3]) NdNone
     = Inr \<lparr>p_coords = [0, 0, 0], p_nd = 3, p_attrs = []\<rparr>
   \<and> fill_zero [Some 1, None, Some 3] = [1, 0, 3]"
  by (simp add: Point_new_def np_zeros_def fill_zero_def)

text \<open>
  C6, amended: for every explicit coordinate sequence (list, tuple or array) with or
  without missing components, construction does not fail and the point has the length of
  the sequence; for a list or an array each missing component is zero and each supplied
  component is kept; for a tuple with a missing component every component of the point is
  zero.
\<close>

theorem Point_new_sequence:
  "Point_new (PSeq k cs) ndarg
     = Inr \<lparr>p_coords = (if k = PyTuple \<and> None \<in> set cs then np_zeros (length cs)
                         else fill_zero cs),
            p_nd = int (length cs), p_attrs = []\<rparr>"
proof (cases "k = PyTuple")
  case True
  then show ?thesis
    by (simp add: Point_new_def replace_none_tuple np_zeros_def fill_zero_def)
next
  case False
  then show ?thesis
    by (simp add: Point_new_def replace_none_list fill_zero_def)
qed

theorem Point_new_sequence_witness:
  "Point_new (PSeq PyList [Some 1, None, Some 3]) NdNone
     = Inr \<lparr>p_coords = [1, 0, 3], p_nd = 3, p_attrs = []\<rparr>"
  using Point_new_sequence [of PyList "[Some 1, None, Some 3]" NdNone]
  by (simp add: fill_zero_def)

text \<open>
  C7: when \<^verbatim>\<open>p\<close> is no tuple, list or array and \<^verbatim>\<open>nd\<close> is no number, the
  constructor does not raise and returns the zero point of dimensionality 3.
\<close>

theorem Point_new_fallback:
  "\<not> is_sequence p \<Longrightarrow> \<not> is_number ndarg \<Longrightarrow>
   Point_new p ndarg = Inr \<lparr>p_coords = [0, 0, 0], p_nd = 3, p_attrs = []\<rparr>"
  by (cases p; cases ndarg) (simp_all add: Point_new_def np_zeros_def numeral_3_eq_3)

theorem Point_new_fallback_witness:
  "\<not> is_sequence POther \<and> \<not> is_number NdOther
   \<and> Point_new POther NdOther = Inr \<lparr>p_coords = [0, 0, 0], p_nd = 3, p_attrs = []\<rparr>"
  using Point_new_fallback [of POther NdOther] by simp

lemma np_cast_zero: "np_cast dt 0 = 0"
  by (cases dt) (simp_all add: c_trunc_def)

lemma rezero_components_eq:
  "rezero_components vec epsilon = vec\<lparr>v_comps := rezero_array (v_comps vec) epsilon\<rparr>"
  by (simp add: rezero_components_def rezero_array_def np_cast_zero)

text \<open>
  C8: \<^verbatim>\<open>rezero_coords\<close> and \<^verbatim>\<open>rezero_components\<close> set exactly the components of
  absolute value at most \<open>epsilon\<close> to zero, leave every other component (and everything
  else of the object) as it is, and applying either twice gives what applying it once
  gives.
\<close>

theorem rezero_exact_and_idempotent:
  "rezero_coords pt epsilon
     = pt\<lparr>p_coords := map (\<lambda>c. if \<bar>c\<bar> \<le> epsilon then 0 else c) (p_coords pt)\<rparr>
   \<and> rezero_coords (rezero_coords pt epsilon) epsilon = rezero_coords pt epsilon
   \<and> rezero_components vec epsilon
     = vec\<lparr>v_comps := map (\<lambda>c. if \<bar>c\<bar> \<le> epsilon then 0 else c) (v_comps vec)\<rparr>
   \<and> rezero_components (rezero_components vec epsilon) epsilon
     = rezero_components vec epsilon"
  by (simp add: rezero_coords_def rezero_components_eq rezero_array_map)

theorem rezero_exact_and_idempotent_witness:
  "rezero_coords \<lparr>p_coords = [1 / 10 ^ 11, - 2, 0], p_nd = 3, p_attrs = []\<rparr> (1 / 10 ^ 10)
     = \<lparr>p_coords = [0, - 2, 0], p_nd = 3, p_attrs = []\<rparr>"
  using rezero_exact_and_idempotent
    [of "\<lparr>p_coords = [1 / 10 ^ 11, - 2, 0], p_nd = 3, p_attrs = []\<rparr>" "1 / 10 ^ 10"]
  by simp

section \<open>Properties of the generator\<close>

lemma wrap_z_shift:
  "0 < T \<Longrightarrow> z0 \<le> T - eps \<Longrightarrow> (0 < k \<longrightarrow> - eps < z0) \<Longrightarrow>
   wrap_z T (z0 + real k * T) = Some z0"
proof (induction k)
  case 0
  then show ?case by (subst wrap_z.simps) simp
next
  case (Suc k)
  then have low: "- eps < z0" by simp
  have "0 \<le> real k * T" using Suc.prems(1) by simp
  then have gt: "z0 + real (Suc k) * T > T - eps"
    using low by (simp add: algebra_simps)
  have "wrap_z T (z0 + real (Suc k) * T) = wrap_z T (z0 + real (Suc k) * T - T)"
    using gt by (subst wrap_z.simps) simp
  also have "z0 + real (Suc k) * T - T = z0 + real k * T"
    by (simp add: algebra_simps)
  finally show ?case using Suc.IH [OF Suc.prems(1,2)] low by simp
qed

lemma wrap_z_total:
  assumes "0 < T"
  shows "\<exists>k. wrap_z T z = Some (z - real k * T) \<and> z - real k * T \<le> T - eps
             \<and> (0 < k \<longrightarrow> - eps < z - real k * T) \<and> (z \<le> T - eps \<longrightarrow> k = 0)"
proof -
  define q where "q = (z - (T - eps)) / T"
  define k where "k = nat \<lceil>q\<rceil>"
  have qT: "q * T = z - (T - eps)" using assms by (simp add: q_def)
  have "q \<le> real k" unfolding k_def by linarith
  then have "q * T \<le> real k * T" using assms by simp
  then have up: "z - real k * T \<le> T - eps" using qT by linarith
  have low: "- eps < z - real k * T" if "0 < k"
  proof -
    from that have "real k = of_int \<lceil>q\<rceil>" unfolding k_def by simp
    then have "real k - 1 < q" by linarith
    then have "(real k - 1) * T < q * T" using assms by simp
    then show ?thesis using qT by (simp add: algebra_simps)
  qed
  have zero: "k = 0" if "z \<le> T - eps"
  proof -
    from that have "q \<le> 0" using assms by (simp add: q_def divide_le_0_iff)
    then have "\<lceil>q\<rceil> \<le> 0" by (simp add: ceiling_le_iff)
    then show ?thesis by (simp add: k_def)
  qed
  have "wrap_z T ((z - real k * T) + real k * T) = Some (z - real k * T)"
    using wrap_z_shift [OF assms up, of k] low by blast
  then have "wrap_z T z = Some (z - real k * T)" by simp
  then show ?thesis using up low zero by blast
qed

lemma snap_bounds:
  "0 < T \<Longrightarrow> c \<le> T - eps \<Longrightarrow>
   snap point_tolerance c < T \<and> snap point_tolerance c \<le> max 0 (T - eps)
   \<and> (- eps < c \<longrightarrow> - eps < snap point_tolerance c)"
  by (simp add: snap_def eps_def le_max_iff_disj)

lemma basis_atoms_total:
  assumes "0 < swnt_T P"
  shows "\<exists>k1 k2 a1 a2. basis_atoms P tau dtau psi dpsi i = Some (a1, a2)
           \<and> element a1 = element1 P \<and> element a2 = element2 P
           \<and> atom_z a1 = snap point_tolerance (of_int i * tau - real k1 * swnt_T P)
           \<and> atom_z a2 = snap point_tolerance (of_int i * tau - dtau - real k2 * swnt_T P)
           \<and> of_int i * tau - real k1 * swnt_T P \<le> swnt_T P - eps
           \<and> of_int i * tau - dtau - real k2 * swnt_T P \<le> swnt_T P - eps
           \<and> (- eps < of_int i * tau \<longrightarrow> - eps < of_int i * tau - real k1 * swnt_T P)
           \<and> (- eps < of_int i * tau - dtau
                \<longrightarrow> - eps < of_int i * tau - dtau - real k2 * swnt_T P)"
proof -
  obtain k1 where k1:
      "wrap_z (swnt_T P) (of_int i * tau) = Some (of_int i * tau - real k1 * swnt_T P)"
      "of_int i * tau - real k1 * swnt_T P \<le> swnt_T P - eps"
      "0 < k1 \<longrightarrow> - eps < of_int i * tau - real k1 * swnt_T P"
    using wrap_z_total [OF assms, of "of_int i * tau"] by blast
  obtain k2 where k2:
      "wrap_z (swnt_T P) (of_int i * tau - dtau)
         = Some (of_int i * tau - dtau - real k2 * swnt_T P)"
      "of_int i * tau - dtau - real k2 * swnt_T P \<le> swnt_T P - eps"
      "0 < k2 \<longrightarrow> - eps < of_int i * tau - dtau - real k2 * swnt_T P"
    using wrap_z_total [OF assms, of "of_int i * tau - dtau"] by blast
  have low1: "- eps < of_int i * tau - real k1 * swnt_T P" if "- eps < of_int i * tau"
    using that k1(3) by (cases "0 < k1") simp_all
  have low2: "- eps < of_int i * tau - dtau - real k2 * swnt_T P"
    if "- eps < of_int i * tau - dtau"
    using that k2(3) by (cases "0 < k2") simp_all
  show ?thesis
  proof (intro exI conjI impI)
    show "basis_atoms P tau dtau psi dpsi i
            = Some (atom_rezero \<lparr>element = element1 P,
                       atom_x = Some (swnt_rt P * cos (of_int i * psi)),
                       atom_y = Some (swnt_rt P * sin (of_int i * psi)),
                       atom_z = of_int i * tau - real k1 * swnt_T P\<rparr>,
                    atom_rezero \<lparr>element = element2 P,
                       atom_x = map_option (\<lambda>d. swnt_rt P * cos (of_int i * psi + d)) dpsi,
                       atom_y = map_option (\<lambda>d. swnt_rt P * sin (of_int i * psi + d)) dpsi,
                       atom_z = of_int i * tau - dtau - real k2 * swnt_T P\<rparr>)"
      using k1(1) k2(1) by (simp add: basis_atoms_def)
  qed (use k1(2) k2(2) low1 low2 in \<open>simp_all add: atom_rezero_def\<close>)
qed

lemma unit_cell_loop_total:
  assumes "0 < swnt_T P"
  shows "\<exists>cell. unit_cell_loop P tau dtau psi dpsi idxs uc = Some (uc @ cell)
           \<and> length cell = 2 * length idxs
           \<and> (\<forall>j < length idxs.
                 basis_atoms P tau dtau psi dpsi (idxs ! j)
                   = Some (cell ! (2 * j), cell ! (2 * j + 1)))"
proof (induction idxs arbitrary: uc)
  case Nil
  then show ?case by simp
next
  case (Cons i rest)
  obtain a1 a2 where a: "basis_atoms P tau dtau psi dpsi i = Some (a1, a2)"
    using basis_atoms_total [OF assms] by blast
  obtain cell where c: "unit_cell_loop P tau dtau psi dpsi rest (uc @ [a1] @ [a2])
        = Some ((uc @ [a1] @ [a2]) @ cell)"
      "length cell = 2 * length rest"
      "\<forall>j < length rest. basis_atoms P tau dtau psi dpsi (rest ! j)
                   = Some (cell ! (2 * j), cell ! (2 * j + 1))"
    using Cons.IH [of "uc @ [a1] @ [a2]"] by blast
  have nth: "basis_atoms P tau dtau psi dpsi ((i # rest) ! j)
               = Some ((a1 # a2 # cell) ! (2 * j), (a1 # a2 # cell) ! (2 * j + 1))"
    if "j < length (i # rest)" for j
  proof (cases j)
    case 0
    then show ?thesis using a by simp
  next
    case (Suc j')
    then show ?thesis using that c(3) by simp
  qed
  show ?case
  proof (intro exI [of _ "a1 # a2 # cell"] conjI allI impI)
    show "unit_cell_loop P tau dtau psi dpsi (i # rest) uc = Some (uc @ a1 # a2 # cell)"
      using a c(1) by simp
    show "length (a1 # a2 # cell) = 2 * length (i # rest)" using c(2) by simp
  qed (use nth in blast)
qed

lemma generate_unit_cell_total:
  assumes "0 < swnt_T P" "swnt_N P \<noteq> 0"
  shows "\<exists>uc. generate_unit_cell P = Some (Inr uc)
           \<and> length uc = 2 * nat (swnt_N P)
           \<and> (\<forall>j < nat (swnt_N P).
                 basis_atoms P (tau_of P) (dtau_of P) (psi_of P) (dpsi_of P) (1 + int j)
                   = Some (uc ! (2 * j), uc ! (2 * j + 1)))"
proof -
  obtain cell where c:
      "unit_cell_loop P (tau_of P) (dtau_of P) (psi_of P) (dpsi_of P) [1..swnt_N P] []
         = Some ([] @ cell)"
      "length cell = 2 * length [1..swnt_N P]"
      "\<forall>j < length [1..swnt_N P].
          basis_atoms P (tau_of P) (dtau_of P) (psi_of P) (dpsi_of P) ([1..swnt_N P] ! j)
            = Some (cell ! (2 * j), cell ! (2 * j + 1))"
    using unit_cell_loop_total [OF assms(1)] by blast
  have nth: "[1..swnt_N P] ! j = 1 + int j" if "j < nat (swnt_N P)" for j
    using that by (simp add: nth_upto)
  show ?thesis
    using c assms(2) nth by (auto simp: generate_unit_cell_def Let_def)
qed

text \<open>
  C4: for a tube with \<open>N > 0\<close> and \<open>T > 0\<close> (what valid chiral indices and a positive
  bond length give), \<^verbatim>\<open>generate_unit_cell\<close> returns, and the unit cell holds exactly
  \<open>2 N\<close> atoms: for each loop index an atom of \<^verbatim>\<open>element1\<close> followed by an atom of
  \<^verbatim>\<open>element2\<close>.
\<close>

theorem generate_unit_cell_count:
  assumes "0 < swnt_T P" "0 < swnt_N P"
  shows "\<exists>uc. generate_unit_cell P = Some (Inr uc)
           \<and> int (length uc) = 2 * swnt_N P
           \<and> (\<forall>j < nat (swnt_N P).
                 element (uc ! (2 * j)) = element1 P
                 \<and> element (uc ! (2 * j + 1)) = element2 P)"
proof -
  from assms(2) have n0: "swnt_N P \<noteq> 0" by simp
  obtain uc where uc: "generate_unit_cell P = Some (Inr uc)"
      "length uc = 2 * nat (swnt_N P)"
      "\<forall>j < nat (swnt_N P).
          basis_atoms P (tau_of P) (dtau_of P) (psi_of P) (dpsi_of P) (1 + int j)
            = Some (uc ! (2 * j), uc ! (2 * j + 1))"
    using generate_unit_cell_total [OF assms(1) n0] by blast
  have el: "element (uc ! (2 * j)) = element1 P \<and> element (uc ! (2 * j + 1)) = element2 P"
    if "j < nat (swnt_N P)" for j
  proof -
    obtain a1 a2 where "basis_atoms P (tau_of P) (dtau_of P) (psi_of P) (dpsi_of P) (1 + int j)
          = Some (a1, a2)" "element a1 = element1 P" "element a2 = element2 P"
      using basis_atoms_total [OF assms(1)] by blast
    then show ?thesis using uc(3) that by simp
  qed
  have "int (length uc) = 2 * swnt_N P" using uc(2) assms(2) by simp
  then show ?thesis using uc(1) el by blast
qed

theorem generate_unit_cell_count_witness:
  "0 < swnt_T tube_10_0 \<and> 0 < swnt_N tube_10_0
   \<and> (\<exists>uc. generate_unit_cell tube_10_0 = Some (Inr uc) \<and> int (length uc) = 40
         \<and> (\<forall>j < 20. element (uc ! (2 * j)) = ''C'' \<and> element (uc ! (2 * j + 1)) = ''C''))"
  using generate_unit_cell_count [of tube_10_0] by (simp add: tube_10_0_def)

text \<open>
  C2, amended: for a tube with \<open>T > 0\<close> and \<open>N \<noteq> 0\<close> the generation returns \<open>2 N\<close>
  atoms, and for the pair of loop index \<open>i = j + 1\<close>: the wraparound loops have lowered
  the raw coordinates \<open>i tau\<close> and \<open>i tau - dtau\<close> by multiples \<open>k\<^sub>1 T\<close> and \<open>k\<^sub>2 T\<close> of
  \<open>T\<close> to values \<open>z \<le> T - \<epsilon>\<close> (\<open>\<epsilon> = 0.01\<close>); the value of the first atom is above \<open>- \<epsilon>\<close>
  when \<open>tau \<ge> 0\<close>, that of the second when also \<open>dtau < tau + \<epsilon>\<close>; the atom stores the
  value re-zeroed. So, under these two conditions, every axial coordinate is left by
  its loop in \<open>(- \<epsilon>, T - \<epsilon>]\<close>, not in \<open>[0, T)\<close>, and every stored coordinate satisfies
  \<open>- \<epsilon> < z < T\<close> and \<open>z \<le> max 0 (T - \<epsilon>)\<close>.
\<close>

theorem generate_unit_cell_axial_range:
  assumes "0 < swnt_T P" "swnt_N P \<noteq> 0"
  shows "\<exists>uc. generate_unit_cell P = Some (Inr uc)
           \<and> length uc = 2 * nat (swnt_N P)
           \<and> (\<forall>j < nat (swnt_N P). \<exists>k1 k2.
                 atom_z (uc ! (2 * j))
                   = snap point_tolerance ((1 + real j) * tau_of P - real k1 * swnt_T P)
                 \<and> atom_z (uc ! (2 * j + 1))
                   = snap point_tolerance
                       ((1 + real j) * tau_of P - dtau_of P - real k2 * swnt_T P)
                 \<and> (1 + real j) * tau_of P - real k1 * swnt_T P \<le> swnt_T P - eps
                 \<and> (1 + real j) * tau_of P - dtau_of P - real k2 * swnt_T P \<le> swnt_T P - eps
                 \<and> (0 \<le> tau_of P
                      \<longrightarrow> - eps < (1 + real j) * tau_of P - real k1 * swnt_T P)
                 \<and> (0 \<le> tau_of P \<and> dtau_of P < tau_of P + eps
                      \<longrightarrow> - eps < (1 + real j) * tau_of P - dtau_of P - real k2 * swnt_T P))
           \<and> (\<forall>a \<in> set uc. atom_z a < swnt_T P \<and> atom_z a \<le> max 0 (swnt_T P - eps))
           \<and> (0 \<le> tau_of P \<and> dtau_of P < tau_of P + eps
                \<longrightarrow> (\<forall>a \<in> set uc. - eps < atom_z a))"
proof -
  obtain uc where uc: "generate_unit_cell P = Some (Inr uc)"
      "length uc = 2 * nat (swnt_N P)"
      "\<forall>j < nat (swnt_N P).
          basis_atoms P (tau_of P) (dtau_of P) (psi_of P) (dpsi_of P) (1 + int j)
            = Some (uc ! (2 * j), uc ! (2 * j + 1))"
    using generate_unit_cell_total [OF assms] by blast
  let ?r1 = "\<lambda>j. (1 + real j) * tau_of P"
  let ?r2 = "\<lambda>j. (1 + real j) * tau_of P - dtau_of P"
  have raw1: "- eps < ?r1 j" if "0 \<le> tau_of P" for j
  proof -
    have "0 \<le> ?r1 j" using that by simp
    then show ?thesis by (simp add: eps_def)
  qed
  have raw2: "- eps < ?r2 j" if "0 \<le> tau_of P" "dtau_of P < tau_of P + eps" for j
  proof -
    have "0 \<le> real j * tau_of P" using that(1) by simp
    then have "tau_of P \<le> ?r1 j" by (simp add: algebra_simps)
    then show ?thesis using that(2) by linarith
  qed
  have pair: "\<exists>k1 k2.
        atom_z (uc ! (2 * j)) = snap point_tolerance (?r1 j - real k1 * swnt_T P)
        \<and> atom_z (uc ! (2 * j + 1)) = snap point_tolerance (?r2 j - real k2 * swnt_T P)
        \<and> ?r1 j - real k1 * swnt_T P \<le> swnt_T P - eps
        \<and> ?r2 j - real k2 * swnt_T P \<le> swnt_T P - eps
        \<and> (0 \<le> tau_of P \<longrightarrow> - eps < ?r1 j - real k1 * swnt_T P)
        \<and> (0 \<le> tau_of P \<and> dtau_of P < tau_of P + eps
             \<longrightarrow> - eps < ?r2 j - real k2 * swnt_T P)"
    if "j < nat (swnt_N P)" for j
  proof -
    obtain k1 k2 a1 a2 where a:
        "basis_atoms P (tau_of P) (dtau_of P) (psi_of P) (dpsi_of P) (1 + int j) = Some (a1, a2)"
        "atom_z a1 = snap point_tolerance (of_int (1 + int j) * tau_of P - real k1 * swnt_T P)"
        "atom_z a2 = snap point_tolerance
                       (of_int (1 + int j) * tau_of P - dtau_of P - real k2 * swnt_T P)"
        "of_int (1 + int j) * tau_of P - real k1 * swnt_T P \<le> swnt_T P - eps"
        "of_int (1 + int j) * tau_of P - dtau_of P - real k2 * swnt_T P \<le> swnt_T P - eps"
        "- eps < of_int (1 + int j) * tau_of P
           \<longrightarrow> - eps < of_int (1 + int j) * tau_of P - real k1 * swnt_T P"
        "- eps < of_int (1 + int j) * tau_of P - dtau_of P
           \<longrightarrow> - eps < of_int (1 + int j) * tau_of P - dtau_of P - real k2 * swnt_T P"
      using basis_atoms_total [OF assms(1)] by blast
    have i: "of_int (1 + int j) = 1 + real j" by simp
    have "uc ! (2 * j) = a1" "uc ! (2 * j + 1) = a2" using a(1) uc(3) that by simp_all
    then show ?thesis
      using a(2-7) raw1 [of j] raw2 [of j] unfolding i by blast
  qed
  have every: "atom_z a < swnt_T P \<and> atom_z a \<le> max 0 (swnt_T P - eps)
        \<and> (0 \<le> tau_of P \<and> dtau_of P < tau_of P + eps \<longrightarrow> - eps < atom_z a)"
    if "a \<in> set uc" for a
  proof -
    from that obtain k where k: "k < length uc" "a = uc ! k"
      by (auto simp: in_set_conv_nth)
    have j: "k div 2 < nat (swnt_N P)" using k(1) uc(2) by simp
    obtain c where c: "atom_z a = snap point_tolerance c" "c \<le> swnt_T P - eps"
        "0 \<le> tau_of P \<and> dtau_of P < tau_of P + eps \<longrightarrow> - eps < c"
    proof (cases "k = 2 * (k div 2)")
      case True
      then show ?thesis using pair [OF j] k(2) that by metis
    next
      case False
      then have "k = 2 * (k div 2) + 1" by presburger
      then show ?thesis using pair [OF j] k(2) that by metis
    qed
    show ?thesis using snap_bounds [OF assms(1) c(2)] c(1,3) by simp
  qed
  show ?thesis using uc(1,2) pair every by blast
qed

theorem generate_unit_cell_axial_range_witness:
  "0 < swnt_T tube_10_0 \<and> swnt_N tube_10_0 \<noteq> 0
   \<and> 0 \<le> tau_of tube_10_0 \<and> dtau_of tube_10_0 < tau_of tube_10_0 + eps
   \<and> (\<exists>uc. generate_unit_cell tube_10_0 = Some (Inr uc) \<and> length uc = 40
         \<and> (\<forall>a \<in> set uc. - (1 / 100) < atom_z a \<and> atom_z a \<le> 213 / 50 - 1 / 100))"
proof -
  have t: "tau_of tube_10_0 = 213 / 100" by (simp add: tau_of_def tube_10_0_def)
  have d: "dtau_of tube_10_0 = 71 / 100" by (simp add: dtau_of_def tube_10_0_def sin_30)
  have T: "swnt_T tube_10_0 = 213 / 50" and N: "swnt_N tube_10_0 = 20"
    by (simp_all add: tube_10_0_def)
  have h: "0 < swnt_T tube_10_0" "swnt_N tube_10_0 \<noteq> 0" by (simp_all add: T N)
  obtain uc where uc: "generate_unit_cell tube_10_0 = Some (Inr uc)"
      "length uc = 2 * nat (swnt_N tube_10_0)"
      "\<forall>a \<in> set uc. atom_z a < swnt_T tube_10_0
                     \<and> atom_z a \<le> max 0 (swnt_T tube_10_0 - eps)"
      "0 \<le> tau_of tube_10_0 \<and> dtau_of tube_10_0 < tau_of tube_10_0 + eps
         \<longrightarrow> (\<forall>a \<in> set uc. - eps < atom_z a)"
    using generate_unit_cell_axial_range [OF h] by blast
  have "\<forall>a \<in> set uc. - (1 / 100) < atom_z a \<and> atom_z a \<le> 213 / 50 - 1 / 100"
    using uc(3,4) by (simp add: t d T eps_def)
  moreover have "length uc = 40" using uc(2) by (simp add: N)
  ultimately show ?thesis using uc(1) h by (simp add: t d eps_def)
qed

lemma basis_atoms_second_z:
  "basis_atoms P tau dtau psi dpsi i = Some (a1, a2) \<Longrightarrow>
   wrap_z (swnt_T P) (of_int i * tau - dtau) = Some z2 \<Longrightarrow>
   atom_z a2 = snap point_tolerance z2"
  by (auto simp: basis_atoms_def atom_rezero_def Let_def split: option.splits)

text \<open>
  C2 as stated fails: the loop only ever subtracts \<open>T\<close>, and it does so while
  \<open>z > T - \<epsilon>\<close>, so a coordinate in the window \<open>(T - \<epsilon>, T)\<close> ends in \<open>(- \<epsilon>, 0)\<close>.
  For the tube \<open>(63, 17)\<close> the second basis atom of loop index 2007 (the atom at
  position 4013 of the unit cell) has \<open>i tau - dtau = 393 T - 71/7300\<close> and ends at
  \<open>z = - 71/7300\<close>, which is negative and outside \<open>[0, T)\<close>.
\<close>

theorem generate_unit_cell_negative_z_counterexample:
  "(case generate_unit_cell tube_63_17 of
      Some (Inr uc) \<Rightarrow> atom_z (uc ! 4013) = - (71 / 7300)
    | _ \<Rightarrow> False)"
proof -
  have T: "0 < swnt_T tube_63_17" and N: "swnt_N tube_63_17 \<noteq> 0"
    by (simp_all add: tube_63_17_def)
  obtain uc where uc: "generate_unit_cell tube_63_17 = Some (Inr uc)"
      "\<forall>j < nat (swnt_N tube_63_17).
          basis_atoms tube_63_17 (tau_of tube_63_17) (dtau_of tube_63_17)
              (psi_of tube_63_17) (dpsi_of tube_63_17) (1 + int j)
            = Some (uc ! (2 * j), uc ! (2 * j + 1))"
    using generate_unit_cell_total [OF T N] by blast
  have "(2006::nat) < nat (swnt_N tube_63_17)" by (simp add: tube_63_17_def)
  then have b: "basis_atoms tube_63_17 (tau_of tube_63_17) (dtau_of tube_63_17)
              (psi_of tube_63_17) (dpsi_of tube_63_17) 2007
            = Some (uc ! 4012, uc ! 4013)"
    using uc(2) by fastforce
  have dtau: "dtau_of tube_63_17 = 1633 / 3650"
    by (simp add: dtau_of_def tube_63_17_def)
  have tau: "tau_of tube_63_17 = 444531 / 7300"
    by (simp add: tau_of_def tube_63_17_def)
  have Tv: "swnt_T tube_63_17 = 15549 / 50" by (simp add: tube_63_17_def)
  have raw: "2007 * tau_of tube_63_17 - dtau_of tube_63_17
               = - (71 / 7300) + real 393 * (15549 / 50)"
    by (simp add: tau dtau)
  have w: "wrap_z (swnt_T tube_63_17) (2007 * tau_of tube_63_17 - dtau_of tube_63_17)
             = Some (- (71 / 7300))"
    unfolding Tv raw by (rule wrap_z_shift) (simp_all add: eps_def)
  have "atom_z (uc ! 4013) = snap point_tolerance (- (71 / 7300))"
    using basis_atoms_second_z [OF b] w by simp
  then have "atom_z (uc ! 4013) = - (71 / 7300)"
    by (simp add: snap_def point_tolerance_def)
  then show ?thesis using uc(1) by simp
qed

lemma fold_append_map: "fold (\<lambda>a acc. acc @ [f a]) xs acc0 = acc0 @ map f xs"
  by (induction xs arbitrary: acc0) auto

lemma replicate_unit_cell_concat:
  "replicate_unit_cell P uc acc0
     = acc0 @ concat (map (\<lambda>k. map (\<lambda>a. translate_atom a (0, 0, real k * swnt_T P)) uc)
                        [0..<nat \<lceil>swnt_nz P\<rceil>])"
proof -
  have "fold (\<lambda>k acc. acc @ map (g k) uc) ks acc0 = acc0 @ concat (map (\<lambda>k. map (g k) uc) ks)"
    for g :: "nat \<Rightarrow> atom \<Rightarrow> atom" and ks acc0
    by (induction ks arbitrary: acc0) auto
  then show ?thesis
    by (simp add: replicate_unit_cell_def fold_append_map)
qed

lemma length_concat_cells:
  "length (concat (map (\<lambda>k. map (g k) uc) [0..<K])) = length uc * K"
  by (induction K) auto

lemma nth_concat_cells:
  "k < K \<Longrightarrow> j < length uc \<Longrightarrow>
   concat (map (\<lambda>k. map (g k) uc) [0..<K]) ! (k * length uc + j) = g k (uc ! j)"
proof (induction K)
  case 0
  then show ?case by simp
next
  case (Suc K)
  show ?case
  proof (cases "k < K")
    case True
    then have "Suc k * length uc \<le> K * length uc" by (simp only: mult_le_mono1 Suc_leI)
    then have "k * length uc + j < length uc * K" using Suc.prems(2) by (simp add: mult.commute)
    then show ?thesis
      using Suc.IH [OF True Suc.prems(2)] by (simp add: nth_append length_concat_cells)
  next
    case False
    then have "k = K" using Suc.prems(1) by simp
    then show ?thesis
      using Suc.prems(2) by (simp add: nth_append length_concat_cells mult.commute)
  qed
qed

text \<open>
  What the two loops of \<^verbatim>\<open>generate_structure_data\<close> build, were they reached:
  \<open>|unit cell| \<sqdot> \<lceil>nz\<rceil>\<close> atoms, the atom at position \<open>k |unit cell| + j\<close> being
  unit-cell atom \<open>j\<close> with the same element, moved by \<open>(0, 0, k T)\<close>.
\<close>

lemma replicate_unit_cell_replicas:
  "length (replicate_unit_cell P uc []) = length uc * nat \<lceil>swnt_nz P\<rceil>
   \<and> (- 1 < swnt_nz P \<and> int (length uc) = 2 * N
        \<longrightarrow> int (length (replicate_unit_cell P uc [])) = 2 * N * \<lceil>swnt_nz P\<rceil>)
   \<and> (\<forall>k j. k < nat \<lceil>swnt_nz P\<rceil> \<and> j < length uc
        \<longrightarrow> replicate_unit_cell P uc [] ! (k * length uc + j)
            = translate_atom (uc ! j) (0, 0, real k * swnt_T P))"
proof (intro conjI impI allI)
  show len: "length (replicate_unit_cell P uc []) = length uc * nat \<lceil>swnt_nz P\<rceil>"
    by (simp add: replicate_unit_cell_concat length_concat_cells)
  show "int (length (replicate_unit_cell P uc [])) = 2 * N * \<lceil>swnt_nz P\<rceil>"
    if "- 1 < swnt_nz P \<and> int (length uc) = 2 * N"
  proof -
    from that have "0 \<le> \<lceil>swnt_nz P\<rceil>" by linarith
    then show ?thesis using that len by simp
  qed
  show "replicate_unit_cell P uc [] ! (k * length uc + j)
          = translate_atom (uc ! j) (0, 0, real k * swnt_T P)"
    if "k < nat \<lceil>swnt_nz P\<rceil> \<and> j < length uc" for k j
    using that by (simp add: replicate_unit_cell_concat nth_concat_cells)
qed


section \<open>Properties of the save pipeline\<close>

text \<open>
  C5: \<^verbatim>\<open>SWNTGenerator.save_data\<close> makes its calls in the order clip (only when a
  length was fixed, with centering before the clip), centre on the centre of mass (unless
  \<^verbatim>\<open>center_CM\<close> is false; the base method is then called with
  \<^verbatim>\<open>center_CM=False\<close> and does not centre again), rotate (only when an angle is
  given), write; the stages of the calls strictly increase, so no rotation comes before
  a clip or a centering and the write is last.
\<close>

theorem save_data_order:
  "SWNTGenerator_save_data supported default_format default_fname P [] fname outpath
       structure_format rotation_angle rot_axis deg2rad center_CM
     = (case swnt_L0 P of
          None \<Rightarrow> []
        | Some L0 \<Rightarrow>
            if fix_Lz P
            then [Clip_bounds [NegInf, NegInf, Fin 0] [PosInf, PosInf, Fin (10 * L0 + 0.25)] True]
            else [])
       @ (if center_CM then [Center_CM] else [])
       @ (case rotation_angle of None \<Rightarrow> [] | Some angle \<Rightarrow> [Rotate angle rot_axis deg2rad])
       @ [Write (resolve_fname (case fname of None \<Rightarrow> default_fname | Some f \<Rightarrow> f)
                   (resolve_format supported default_format
                      (case fname of None \<Rightarrow> default_fname | Some f \<Rightarrow> f) structure_format))
                outpath
                (resolve_format supported default_format
                   (case fname of None \<Rightarrow> default_fname | Some f \<Rightarrow> f) structure_format)]
   \<and> sorted_wrt (<) (map stage
         (SWNTGenerator_save_data supported default_format default_fname P [] fname outpath
            structure_format rotation_angle rot_axis deg2rad center_CM))"
  by (simp add: SWNTGenerator_save_data_def GeneratorMixin_save_data_def Let_def
           split: option.split)

theorem save_data_order_witness:
  "SWNTGenerator_save_data [''xyz'', ''data''] ''xyz'' ''1000r_5cells''
       (tube_10_0\<lparr>swnt_L0 := Some 1, fix_Lz := True\<rparr>)
       [] None None None (Some 90) (Some Z) True True
     = [Clip_bounds [NegInf, NegInf, Fin 0] [PosInf, PosInf, Fin (41 / 4)] True,
        Center_CM, Rotate 90 (Some Z) True, Write ''1000r_5cells.xyz'' None ''xyz'']"
  using save_data_order [of "[''xyz'', ''data'']" "''xyz''" "''1000r_5cells''"
      "tube_10_0\<lparr>swnt_L0 := Some 1, fix_Lz := True\<rparr>"
      None None None "Some 90" "Some Z" True True]
  by (simp add: resolve_format_def resolve_fname_def suffix_to_prefix tube_10_0_def)

section \<open>Properties of Vector\<close>

lemma bound_vecE:
  assumes "bound_vec h vec"
  obtains a b where "v_p vec = Some a" "v_p0 vec = Some b" "a < length h" "b < length h"
    "a \<noteq> b" "length (p_coords (h ! a)) = length (v_comps vec)"
    "length (p_coords (h ! b)) = length (v_comps vec)"
    "v_nd vec = int (length (v_comps vec))"
    "p_nd (h ! a) = int (length (v_comps vec))" "p_nd (h ! b) = int (length (v_comps vec))"
    "p_attrs (h ! a) = []" "p_attrs (h ! b) = []"
  using assms by (auto simp: bound_vec_def split: option.splits)

lemma np_assign_all_len:
  "np_assign_all target val = Inr cs \<Longrightarrow> length cs = length target"
  by (auto simp: np_assign_all_def split: if_splits)

lemma np_assign_all_cong:
  "length t1 = length t2 \<Longrightarrow> np_assign_all t1 val = np_assign_all t2 val"
  by (simp add: np_assign_all_def)

lemma np_assign_all_ok:
  "length val = length target \<or> length val = 1 \<Longrightarrow>
   \<exists>cs. np_assign_all target val = Inr cs"
  by (auto simp: np_assign_all_def)

lemma np_sub_same_len:
  "length xs = length ys \<Longrightarrow> np_sub xs ys = Inr (map2 (-) xs ys)"
  by (simp add: np_sub_def np_broadcast2_def)

lemma recompute_v_bound:
  assumes "v_p vec = Some a" "v_p0 vec = Some b"
    "length (p_coords (h ! a)) = length (v_comps vec)"
    "length (p_coords (h ! b)) = length (v_comps vec)"
  shows "recompute_v h vec
           = Inr (h, vec\<lparr>v_comps := map (np_cast (v_dtype vec))
                                     (map2 (-) (p_coords (h ! a)) (p_coords (h ! b)))\<rparr>)"
  using assms
  by (simp add: recompute_v_def py_bind_def np_sub_same_len np_assign_all_def)

lemma Vector_set_p0_bound:
  assumes bv: "bound_vec h vec" and a: "v_p vec = Some a" and b: "v_p0 vec = Some b"
    and val: "np_assign_all (v_comps vec) val = Inr cs"
  shows "Vector_set_p0 h vec val
           = Inr (h[b := (h ! b)\<lparr>p_coords := cs\<rparr>],
                  vec\<lparr>v_comps := map (np_cast (v_dtype vec))
                                    (map2 (-) (p_coords (h ! a)) cs)\<rparr>)"
proof -
  from bv a b have f: "a < length h" "b < length h" "a \<noteq> b"
      "length (p_coords (h ! a)) = length (v_comps vec)"
      "length (p_coords (h ! b)) = length (v_comps vec)"
    by (auto elim!: bound_vecE)
  have len: "length cs = length (v_comps vec)" using val by (rule np_assign_all_len)
  have asg: "np_assign_all (p_coords (h ! b)) val = Inr cs"
    using val f(5) np_assign_all_cong [of "p_coords (h ! b)" "v_comps vec" val] by simp
  let ?h = "h[b := (h ! b)\<lparr>p_coords := cs\<rparr>]"
  have "recompute_v ?h vec
          = Inr (?h, vec\<lparr>v_comps := map (np_cast (v_dtype vec))
                                      (map2 (-) (p_coords (?h ! a)) (p_coords (?h ! b)))\<rparr>)"
    using a b f len by (intro recompute_v_bound) simp_all
  then show ?thesis
    using b asg f by (simp add: Vector_set_p0_def py_bind_def)
qed

lemma Vector_set_p_bound:
  assumes bv: "bound_vec h vec" and a: "v_p vec = Some a" and b: "v_p0 vec = Some b"
    and val: "np_assign_all (v_comps vec) val = Inr cs"
  shows "Vector_set_p h vec val
           = Inr (h[a := (h ! a)\<lparr>p_coords := cs\<rparr>],
                  vec\<lparr>v_comps := map (np_cast (v_dtype vec))
                                    (map2 (-) cs (p_coords (h ! b)))\<rparr>)"
proof -
  from bv a b have f: "a < length h" "b < length h" "a \<noteq> b"
      "length (p_coords (h ! a)) = length (v_comps vec)"
      "length (p_coords (h ! b)) = length (v_comps vec)"
    by (auto elim!: bound_vecE)
  have len: "length cs = length (v_comps vec)" using val by (rule np_assign_all_len)
  have asg: "np_assign_all (p_coords (h ! a)) val = Inr cs"
    using val f(4) np_assign_all_cong [of "p_coords (h ! a)" "v_comps vec" val] by simp
  let ?h = "h[a := (h ! a)\<lparr>p_coords := cs\<rparr>]"
  have "recompute_v ?h vec
          = Inr (?h, vec\<lparr>v_comps := map (np_cast (v_dtype vec))
                                      (map2 (-) (p_coords (?h ! a)) (p_coords (?h ! b)))\<rparr>)"
    using a b f len by (intro recompute_v_bound) simp_all
  then show ?thesis
    using a asg f by (simp add: Vector_set_p_def py_bind_def)
qed

lemma is_alias_index: "is_alias (int k) ax \<Longrightarrow> axis_index ax < k"
  by (cases ax) auto

lemma Point_new_wf:
  "Point_new p ndarg = Inr pt \<Longrightarrow> p_attrs pt = [] \<and> p_nd pt = int (length (p_coords pt))"
  by (auto simp: Point_new_def Let_def np_zeros_def split: pt_arg.splits if_splits)

lemma np_add_same_len:
  "length xs = length ys \<Longrightarrow> np_add xs ys = Inr (map2 (+) xs ys)"
  by (simp add: np_add_def np_broadcast2_def)

lemma np_add_len_cases:
  assumes "np_add xs ys = Inr s"
  shows "(length xs = length ys \<and> s = map2 (+) xs ys)
         \<or> (length xs \<noteq> length ys \<and> (length xs = 1 \<or> length ys = 1))"
  using assms by (auto simp: np_add_def np_broadcast2_def split: if_splits)

text \<open>Writing a component its own value leaves a consistent pair of points as it is.\<close>

lemma sync_p_same:
  assumes a: "v_p vec = Some a" and b: "v_p0 vec = Some b"
    and "p_attrs (h ! b) = []"
    and nd: "p_nd (h ! a) = int (length (p_coords (h ! b)))"
    and sum: "np_add (p_coords (h ! b)) (v_comps vec) = Inr (p_coords (h ! a))"
    and al: "is_alias (int (length (v_comps vec))) ax"
  shows "sync_p h vec ax (v_comps vec ! axis_index ax) = Inr h"
proof (cases "is_alias (int (length (p_coords (h ! b)))) ax")
  case False
  then show ?thesis using b assms(3) by (simp add: sync_p_def Point_getattr_def)
next
  case True
  have n23: "length (v_comps vec) = 2 \<or> length (v_comps vec) = 3"
    using al by (cases ax) auto
  have m23: "length (p_coords (h ! b)) = 2 \<or> length (p_coords (h ! b)) = 3"
    using True by (cases ax) auto
  from np_add_len_cases [OF sum] n23 m23
  have eq: "length (p_coords (h ! b)) = length (v_comps vec)"
    and s: "p_coords (h ! a) = map2 (+) (p_coords (h ! b)) (v_comps vec)"
    by auto
  have i: "axis_index ax < length (v_comps vec)" using al by (rule is_alias_index)
  have la: "length (p_coords (h ! a)) = length (v_comps vec)" using s eq by simp
  have "(p_coords (h ! a))[axis_index ax :=
           p_coords (h ! b) ! axis_index ax + v_comps vec ! axis_index ax] = p_coords (h ! a)"
    using i eq by (subst (2) s, subst s) (simp add: list_update_same_conv)
  then have "Point_setattr (h ! a) ax
               (p_coords (h ! b) ! axis_index ax + v_comps vec ! axis_index ax) = Inr (h ! a)"
    using nd True i la by (simp add: Point_setattr_def)
  then show ?thesis
    using a b assms(3) True by (simp add: sync_p_def Point_getattr_def)
qed

lemma Vector_setattr_same:
  assumes "v_p vec = Some a" "v_p0 vec = Some b" "p_attrs (h ! b) = []"
    "p_nd (h ! a) = int (length (p_coords (h ! b)))"
    "np_add (p_coords (h ! b)) (v_comps vec) = Inr (p_coords (h ! a))"
    "v_nd vec = int (length (v_comps vec))" "is_alias (v_nd vec) ax"
    "list_all (\<lambda>c. np_cast (v_dtype vec) c = c) (v_comps vec)"
  shows "Vector_setattr h vec ax (v_comps vec ! axis_index ax) = Inr (h, vec)"
proof -
  have al: "is_alias (int (length (v_comps vec))) ax" using assms(6,7) by simp
  have i: "axis_index ax < length (v_comps vec)" using al by (rule is_alias_index)
  have c: "np_cast (v_dtype vec) (v_comps vec ! axis_index ax) = v_comps vec ! axis_index ax"
    using assms(8) i by (simp add: list_all_length)
  have "sync_p h vec ax (v_comps vec ! axis_index ax) = Inr h"
    using assms(1-5) al by (rule sync_p_same)
  then show ?thesis
    using assms(7) i c by (simp add: Vector_setattr_def py_bind_def)
qed

lemma init_aliases_same:
  assumes "v_p vec = Some a" "v_p0 vec = Some b" "p_attrs (h ! b) = []"
    "p_nd (h ! a) = int (length (p_coords (h ! b)))"
    "np_add (p_coords (h ! b)) (v_comps vec) = Inr (p_coords (h ! a))"
    "v_nd vec = int (length (v_comps vec))"
    "list_all (\<lambda>c. np_cast (v_dtype vec) c = c) (v_comps vec)"
  shows "init_aliases h vec = Inr (h, vec)"
proof -
  have step: "Vector_setattr h vec ax (v_comps vec ! axis_index ax) = Inr (h, vec)"
    if "is_alias (v_nd vec) ax" for ax
    using assms(1-6) that assms(7) by (rule Vector_setattr_same)
  consider "v_nd vec = 2" | "v_nd vec = 3" | "v_nd vec \<noteq> 2 \<and> v_nd vec \<noteq> 3" by blast
  then show ?thesis
  proof cases
    case 1
    then have "length (v_comps vec) = 2" using assms(6) by simp
    then show ?thesis
      using 1 step [of X] step [of Y] by (simp add: init_aliases_def py_bind_def)
  next
    case 2
    then have "length (v_comps vec) = 3" using assms(6) by simp
    then show ?thesis
      using 2 step [of X] step [of Y] step [of Z] by (simp add: init_aliases_def py_bind_def)
  next
    case 3
    then show ?thesis by (simp add: init_aliases_def)
  qed
qed

lemma seq_dtype_cast:
  "list_all (\<lambda>c. np_cast (seq_dtype cs) c = c) (map num_val cs)"
proof (cases "seq_dtype cs")
  case Float64
  then show ?thesis by (simp add: list_all_iff)
next
  case Int64
  then have "list_all is_py_int cs" by (simp add: seq_dtype_def split: if_splits)
  moreover have "np_cast Int64 (num_val c) = num_val c" if "is_py_int c" for c
    using that by (cases c) (simp_all add: c_trunc_def)
  ultimately show ?thesis using Int64 by (simp add: list_all_iff)
qed

lemma Vector_new_seq:
  assumes pt0: "Point_new p0 (NdNum (int (length cs))) = Inr pt0"
    and s: "np_add (p_coords pt0) (map num_val cs) = Inr s"
  shows "Vector_new h (VSeq cs) ndarg p p0
           = Inr (h @ [pt0, \<lparr>p_coords = s, p_nd = int (length (p_coords pt0)), p_attrs = []\<rparr>],
                  \<lparr>v_comps = map num_val cs, v_dtype = seq_dtype cs,
                   v_nd = int (length cs), v_p = Some (Suc (length h)),
                   v_p0 = Some (length h), v_attrs = []\<rparr>)"
proof -
  let ?h = "h @ [pt0, \<lparr>p_coords = s, p_nd = int (length (p_coords pt0)), p_attrs = []\<rparr>]"
  let ?v = "\<lparr>v_comps = map num_val cs, v_dtype = seq_dtype cs, v_nd = int (length cs),
             v_p = Some (Suc (length h)), v_p0 = Some (length h), v_attrs = []\<rparr>"
  have "init_aliases ?h ?v = Inr (?h, ?v)"
    using Point_new_wf [OF pt0] s seq_dtype_cast [of cs]
    by (intro init_aliases_same [of _ "Suc (length h)" "length h"]) (simp_all add: nth_append)
  then show ?thesis using pt0 s by (simp add: Vector_new_def py_bind_def Let_def)
qed

lemma Vector_new_seq_bound:
  assumes pt0: "Point_new p0 (NdNum (int (length cs))) = Inr pt0"
    and len: "length (p_coords pt0) = length cs"
  shows "\<exists>h' vec. Vector_new h (VSeq cs) ndarg p p0 = Inr (h', vec)
            \<and> bound_vec h' vec \<and> v_eq_p_minus_p0 h' vec \<and> v_comps vec = map num_val cs"
proof -
  have s: "np_add (p_coords pt0) (map num_val cs)
             = Inr (map2 (+) (p_coords pt0) (map num_val cs))"
    using len by (intro np_add_same_len) simp
  have "map2 (-) (map2 (+) (p_coords pt0) (map num_val cs)) (p_coords pt0) = map num_val cs"
    using len by (intro nth_equalityI) simp_all
  then show ?thesis
    using Vector_new_seq [OF pt0 s, of h ndarg p] Point_new_wf [OF pt0] len
    by (simp add: bound_vec_def v_eq_p_minus_p0_def nth_append)
qed

lemma Vector_setattr_bound:
  assumes bv: "bound_vec h vec" and a: "v_p vec = Some a" and b: "v_p0 vec = Some b"
    and al: "is_alias (v_nd vec) ax"
  shows "Vector_setattr h vec ax val
           = Inr (h[a := (h ! a)\<lparr>p_coords := (p_coords (h ! a))
                            [axis_index ax := p_coords (h ! b) ! axis_index ax + val]\<rparr>],
                  vec\<lparr>v_comps := (v_comps vec)
                                    [axis_index ax := np_cast (v_dtype vec) val]\<rparr>)"
proof -
  from bv a b have f: "length (p_coords (h ! a)) = length (v_comps vec)"
      "length (p_coords (h ! b)) = length (v_comps vec)"
      "v_nd vec = int (length (v_comps vec))"
      "p_nd (h ! a) = int (length (v_comps vec))"
      "p_attrs (h ! b) = []"
    by (auto elim!: bound_vecE)
  have al': "is_alias (int (length (v_comps vec))) ax" using al f(3) by simp
  have i: "axis_index ax < length (v_comps vec)" using al' by (rule is_alias_index)
  have "sync_p h (vec\<lparr>v_comps := (v_comps vec)
                          [axis_index ax := np_cast (v_dtype vec) val]\<rparr>) ax val
          = Inr (h[a := (h ! a)\<lparr>p_coords := (p_coords (h ! a))
                            [axis_index ax := p_coords (h ! b) ! axis_index ax + val]\<rparr>])"
    using a b f al' i by (simp add: sync_p_def Point_getattr_def Point_setattr_def)
  then show ?thesis
    using al i by (simp add: Vector_setattr_def py_bind_def)
qed

lemma map2_minus_update:
  fixes ps qs :: "real list"
  assumes "length ps = length qs" "i < length ps"
  shows "map2 (-) (ps[i := qs ! i + c]) qs = (map2 (-) ps qs)[i := c]"
  using assms by (intro nth_equalityI) (auto simp: nth_list_update)

text \<open>
  A write by alias keeps \<open>v = p - p0\<close> when the value is one that the vector's element
  type holds (any value for a \<^verbatim>\<open>float64\<close> vector, an integral one for an
  \<^verbatim>\<open>int64\<close> vector).
\<close>

lemma Vector_setattr_invariant:
  assumes bv: "bound_vec h vec" and a: "v_p vec = Some a" and b: "v_p0 vec = Some b"
    and inv: "v_eq_p_minus_p0 h vec" and cast: "np_cast (v_dtype vec) val = val"
  shows "\<exists>h' vec'. Vector_setattr h vec ax val = Inr (h', vec')
           \<and> bound_vec h' vec' \<and> v_eq_p_minus_p0 h' vec' \<and> h' ! b = h ! b
           \<and> (is_alias (v_nd vec) ax \<longrightarrow>
                v_comps vec' = (v_comps vec)[axis_index ax := val]
                \<and> p_coords (h' ! a) = (p_coords (h ! a))
                     [axis_index ax := p_coords (h ! b) ! axis_index ax + val])"
proof (cases "is_alias (v_nd vec) ax")
  case False
  then have "Vector_setattr h vec ax val = Inr (h, vec\<lparr>v_attrs := (ax, val) # v_attrs vec\<rparr>)"
    by (simp add: Vector_setattr_def)
  moreover have "bound_vec h (vec\<lparr>v_attrs := (ax, val) # v_attrs vec\<rparr>)"
    using bv by (auto simp: bound_vec_def split: option.splits)
  moreover have "v_eq_p_minus_p0 h (vec\<lparr>v_attrs := (ax, val) # v_attrs vec\<rparr>)"
    using inv by (auto simp: v_eq_p_minus_p0_def split: option.splits)
  ultimately show ?thesis using False by simp
next
  case True
  from bv a b have f: "a < length h" "b < length h" "a \<noteq> b"
      "length (p_coords (h ! a)) = length (v_comps vec)"
      "length (p_coords (h ! b)) = length (v_comps vec)"
      "v_nd vec = int (length (v_comps vec))"
    by (auto elim!: bound_vecE)
  have i: "axis_index ax < length (v_comps vec)"
    using True f(6) is_alias_index by simp
  have m: "map2 (-) ((p_coords (h ! a))[axis_index ax := p_coords (h ! b) ! axis_index ax + val])
             (p_coords (h ! b))
           = (map2 (-) (p_coords (h ! a)) (p_coords (h ! b)))[axis_index ax := val]"
    using f(4,5) i by (intro map2_minus_update) simp_all
  have v: "v_comps vec = map2 (-) (p_coords (h ! a)) (p_coords (h ! b))"
    using inv a b by (simp add: v_eq_p_minus_p0_def)
  let ?pa = "(h ! a)\<lparr>p_coords := (p_coords (h ! a))
                 [axis_index ax := p_coords (h ! b) ! axis_index ax + val]\<rparr>"
  let ?h = "h[a := ?pa]"
  let ?v = "vec\<lparr>v_comps := (v_comps vec)[axis_index ax := val]\<rparr>"
  have e: "Vector_setattr h vec ax val = Inr (?h, ?v)"
    using Vector_setattr_bound [OF bv a b True, of val] cast by simp
  have ha: "?h ! a = ?pa" using f(1) by simp
  have hb: "?h ! b = h ! b" using f(3) by simp
  have B: "bound_vec ?h ?v"
    using bv a b unfolding bound_vec_def by (simp add: ha hb)
  have "(v_comps vec)[axis_index ax := val]
          = map2 (-) ((p_coords (h ! a))[axis_index ax := p_coords (h ! b) ! axis_index ax + val])
              (p_coords (h ! b))"
    by (subst m, subst v, rule refl)
  then have I: "v_eq_p_minus_p0 ?h ?v"
    using a b unfolding v_eq_p_minus_p0_def by (simp add: ha hb)
  show ?thesis using e B I hb ha by simp
qed

text \<open>
  C9: when \<^verbatim>\<open>v\<close> is a tuple, list or array, \<^verbatim>\<open>Vector.__new__\<close> never looks at
  its argument \<^verbatim>\<open>p\<close>: any two values of \<^verbatim>\<open>p\<close> give the same result; whenever
  the construction succeeds the terminal point holds \<open>p0 + v\<close> (numpy's sum of the
  origin point and the components); and without \<^verbatim>\<open>p0\<close> the construction succeeds,
  the origin is the zero point of the length of \<^verbatim>\<open>v\<close> and the terminal point is
  \<^verbatim>\<open>v\<close> itself.
\<close>

theorem Vector_new_ignores_p:
  "Vector_new h (VSeq cs) ndarg p p0 = Vector_new h (VSeq cs) ndarg p' p0
   \<and> (\<forall>h' vec. Vector_new h (VSeq cs) ndarg p p0 = Inr (h', vec) \<longrightarrow>
         (\<exists>a b. v_p vec = Some a \<and> v_p0 vec = Some b \<and> a < length h' \<and> b < length h'
                \<and> v_comps vec = map num_val cs
                \<and> np_add (p_coords (h' ! b)) (map num_val cs) = Inr (p_coords (h' ! a))))
   \<and> (\<exists>h' vec a b. Vector_new h (VSeq cs) ndarg p PNone = Inr (h', vec)
         \<and> v_p vec = Some a \<and> v_p0 vec = Some b \<and> v_comps vec = map num_val cs
         \<and> p_coords (h' ! b) = np_zeros (length cs)
         \<and> p_coords (h' ! a) = map num_val cs)"
proof (intro conjI allI impI)
  show "Vector_new h (VSeq cs) ndarg p p0 = Vector_new h (VSeq cs) ndarg p' p0"
    by (simp add: Vector_new_def)
next
  fix h' vec
  assume ok: "Vector_new h (VSeq cs) ndarg p p0 = Inr (h', vec)"
  then obtain pt0 where pt0: "Point_new p0 (NdNum (int (length cs))) = Inr pt0"
    by (cases "Point_new p0 (NdNum (int (length cs)))")
       (simp_all add: Vector_new_def py_bind_def Let_def)
  from ok pt0 obtain s where s: "np_add (p_coords pt0) (map num_val cs) = Inr s"
    by (cases "np_add (p_coords pt0) (map num_val cs)")
       (simp_all add: Vector_new_def py_bind_def Let_def)
  show "\<exists>a b. v_p vec = Some a \<and> v_p0 vec = Some b \<and> a < length h' \<and> b < length h'
              \<and> v_comps vec = map num_val cs
              \<and> np_add (p_coords (h' ! b)) (map num_val cs) = Inr (p_coords (h' ! a))"
    using ok s unfolding Vector_new_seq [OF pt0 s] by (auto simp: nth_append)
next
  have z: "Point_new PNone (NdNum (int (length cs)))
             = Inr \<lparr>p_coords = np_zeros (length cs), p_nd = int (length cs), p_attrs = []\<rparr>"
    by (simp add: Point_new_def)
  have "map2 (+) (np_zeros (length cs)) (map num_val cs) = map num_val cs"
    by (intro nth_equalityI) (simp_all add: np_zeros_def)
  then have s: "np_add (p_coords \<lparr>p_coords = np_zeros (length cs), p_nd = int (length cs),
                                   p_attrs = []\<rparr>) (map num_val cs) = Inr (map num_val cs)"
    by (simp add: np_add_same_len np_zeros_def)
  show "\<exists>h' vec a b. Vector_new h (VSeq cs) ndarg p PNone = Inr (h', vec)
         \<and> v_p vec = Some a \<and> v_p0 vec = Some b \<and> v_comps vec = map num_val cs
         \<and> p_coords (h' ! b) = np_zeros (length cs)
         \<and> p_coords (h' ! a) = map num_val cs"
    unfolding Vector_new_seq [OF z s] by (simp add: nth_append)
qed

theorem Vector_new_ignores_p_witness:
  "Vector_new [] (VSeq [PyInt 1, PyInt 2, PyInt 3]) NdNone
       (PSeq PyList [Some 9, Some 9, Some 9]) (PSeq PyList [Some 1, Some 1, Some 1])
     = Inr ([\<lparr>p_coords = [1, 1, 1], p_nd = 3, p_attrs = []\<rparr>,
             \<lparr>p_coords = [2, 3, 4], p_nd = 3, p_attrs = []\<rparr>],
            \<lparr>v_comps = [1, 2, 3], v_dtype = Int64, v_nd = 3, v_p = Some 1, v_p0 = Some 0,
             v_attrs = []\<rparr>)
   \<and> np_add [1, 1, 1] [1, 2, 3] = Inr [2, 3, 4]"
proof -
  have ev: "Vector_new [] (VSeq [PyInt 1, PyInt 2, PyInt 3]) NdNone
       (PSeq PyList [Some 9, Some 9, Some 9]) (PSeq PyList [Some 1, Some 1, Some 1])
     = Inr ([\<lparr>p_coords = [1, 1, 1], p_nd = 3, p_attrs = []\<rparr>,
             \<lparr>p_coords = [2, 3, 4], p_nd = 3, p_attrs = []\<rparr>],
            \<lparr>v_comps = [1, 2, 3], v_dtype = Int64, v_nd = 3, v_p = Some 1, v_p0 = Some 0,
             v_attrs = []\<rparr>)"
    by (simp add: Vector_new_def Point_new_def py_bind_def np_add_def np_broadcast2_def
          init_aliases_def Vector_setattr_def sync_p_def Point_getattr_def Point_setattr_def
          seq_dtype_def c_trunc_def Let_def)
  show ?thesis
    using Vector_new_ignores_p [of "[]" "[PyInt 1, PyInt 2, PyInt 3]" NdNone
        "PSeq PyList [Some 9, Some 9, Some 9]" "PSeq PyList [Some 1, Some 1, Some 1]" PNone]
      ev
    by (simp add: numeral_2_eq_2)
qed

text \<open>
  The setters establish \<open>v = p - p0\<close> on a \<^verbatim>\<open>float64\<close> vector, whatever the
  components were before.
\<close>

lemma Vector_set_p0_invariant:
  assumes bv: "bound_vec h vec" and val: "np_assign_all (v_comps vec) val = Inr cs"
    and fl: "v_dtype vec = Float64"
  shows "\<exists>h' vec'. Vector_set_p0 h vec val = Inr (h', vec')
           \<and> bound_vec h' vec' \<and> v_eq_p_minus_p0 h' vec'"
proof -
  from bv obtain a b where ab: "v_p vec = Some a" "v_p0 vec = Some b" "a < length h"
      "b < length h" "a \<noteq> b" "length (p_coords (h ! a)) = length (v_comps vec)"
    by (auto elim!: bound_vecE)
  have len: "length cs = length (v_comps vec)" using val by (rule np_assign_all_len)
  let ?h = "h[b := (h ! b)\<lparr>p_coords := cs\<rparr>]"
  let ?v = "vec\<lparr>v_comps := map2 (-) (p_coords (h ! a)) cs\<rparr>"
  have e: "Vector_set_p0 h vec val = Inr (?h, ?v)"
    using Vector_set_p0_bound [OF bv ab(1,2) val] fl by simp
  have ha: "?h ! a = h ! a" using ab(5) by simp
  have hb: "?h ! b = (h ! b)\<lparr>p_coords := cs\<rparr>" using ab(4) by simp
  have "bound_vec ?h ?v"
    using bv ab(1,2) len unfolding bound_vec_def by (simp add: ha hb)
  moreover have "v_eq_p_minus_p0 ?h ?v"
    using ab(1,2) unfolding v_eq_p_minus_p0_def by (simp add: ha hb)
  ultimately show ?thesis using e by simp
qed

lemma Vector_set_p_invariant:
  assumes bv: "bound_vec h vec" and val: "np_assign_all (v_comps vec) val = Inr cs"
    and fl: "v_dtype vec = Float64"
  shows "\<exists>h' vec'. Vector_set_p h vec val = Inr (h', vec')
           \<and> bound_vec h' vec' \<and> v_eq_p_minus_p0 h' vec'"
proof -
  from bv obtain a b where ab: "v_p vec = Some a" "v_p0 vec = Some b" "a < length h"
      "b < length h" "a \<noteq> b" "length (p_coords (h ! b)) = length (v_comps vec)"
    by (auto elim!: bound_vecE)
  have len: "length cs = length (v_comps vec)" using val by (rule np_assign_all_len)
  let ?h = "h[a := (h ! a)\<lparr>p_coords := cs\<rparr>]"
  let ?v = "vec\<lparr>v_comps := map2 (-) cs (p_coords (h ! b))\<rparr>"
  have e: "Vector_set_p h vec val = Inr (?h, ?v)"
    using Vector_set_p_bound [OF bv ab(1,2) val] fl by simp
  have hb: "?h ! b = h ! b" using ab(5) by simp
  have ha: "?h ! a = (h ! a)\<lparr>p_coords := cs\<rparr>" using ab(3) by simp
  have "bound_vec ?h ?v"
    using bv ab(1,2) len unfolding bound_vec_def by (simp add: ha hb)
  moreover have "v_eq_p_minus_p0 ?h ?v"
    using ab(1,2) unfolding v_eq_p_minus_p0_def by (simp add: ha hb)
  ultimately show ?thesis using e by simp
qed

text \<open>
  C10 as stated fails in its second half: the components are stored with the vector's
  element type. \<^verbatim>\<open>vec = Vector([1, 2, 3])\<close> is an \<^verbatim>\<open>int64\<close> vector; after
  \<^verbatim>\<open>vec.p0 = [0.5, 0.5, 0.5]\<close> the terminal point is still \<open>(1, 2, 3)\<close> and the
  origin is \<open>(0.5, 0.5, 0.5)\<close>, but the components are \<open>(0, 1, 2)\<close>, the truncation of
  \<open>p - p0 = (0.5, 1.5, 2.5)\<close>.
\<close>

theorem Vector_set_p0_truncates_counterexample:
  "(case Vector_new [] (VSeq [PyInt 1, PyInt 2, PyInt 3]) NdNone PNone PNone of
      Inl e \<Rightarrow> False
    | Inr (h, vec) \<Rightarrow>
        (case Vector_set_p0 h vec [1 / 2, 1 / 2, 1 / 2] of
           Inl e \<Rightarrow> False
         | Inr (h', vec') \<Rightarrow>
             v_comps vec' = [0, 1, 2]
             \<and> map_option (\<lambda>a. p_coords (h' ! a)) (v_p vec') = Some [1, 2, 3]
             \<and> map_option (\<lambda>b. p_coords (h' ! b)) (v_p0 vec') = Some [1 / 2, 1 / 2, 1 / 2]
             \<and> map2 (-) [1, 2, 3] [1 / 2, 1 / 2, 1 / 2] = [1 / 2, 3 / 2, 5 / 2 :: real]))"
proof -
  have f: "\<lfloor>1 / 2 :: real\<rfloor> = 0" "\<lfloor>3 / 2 :: real\<rfloor> = 1" "\<lfloor>5 / 2 :: real\<rfloor> = 2"
    by (simp_all add: floor_eq_iff)
  show ?thesis
    by (simp add: Vector_new_def Point_new_def py_bind_def np_add_def np_sub_def
          np_broadcast2_def init_aliases_def Vector_setattr_def sync_p_def Point_getattr_def
          Point_setattr_def np_zeros_def numeral_3_eq_3 seq_dtype_def c_trunc_def Let_def
          Vector_set_p0_def recompute_v_def np_assign_all_def f)
qed

text \<open>
  C10, amended: for a vector bound to two points (the references are distinct, as
  \<open>Vector_new\<close> makes them), assigning \<^verbatim>\<open>vec.p0 = value\<close> writes the value into the
  origin point in place, leaves the object of the terminal point as it was and sets the
  components to \<open>p - p0\<close> converted to the vector's element type: to \<open>p - p0\<close> itself
  for a \<^verbatim>\<open>float64\<close> vector, to its truncation toward zero for an \<^verbatim>\<open>int64\<close> vector;
  \<^verbatim>\<open>vec.p = value\<close> does the same with the roles of the two points exchanged. The
  value is any that numpy can assign to the whole vector.
\<close>

theorem Vector_point_setters_frame:
  assumes bv: "bound_vec h vec" and a: "v_p vec = Some a" and b: "v_p0 vec = Some b"
    and val: "np_assign_all (v_comps vec) val = Inr cs"
  shows "(\<exists>h' vec'. Vector_set_p0 h vec val = Inr (h', vec')
            \<and> v_p vec' = Some a \<and> v_p0 vec' = Some b \<and> length h' = length h
            \<and> h' ! a = h ! a \<and> p_coords (h' ! b) = cs
            \<and> v_comps vec' = map (np_cast (v_dtype vec))
                                (map2 (-) (p_coords (h' ! a)) (p_coords (h' ! b)))
            \<and> (v_dtype vec = Float64
                 \<longrightarrow> v_comps vec' = map2 (-) (p_coords (h' ! a)) (p_coords (h' ! b))))
       \<and> (\<exists>h' vec'. Vector_set_p h vec val = Inr (h', vec')
            \<and> v_p vec' = Some a \<and> v_p0 vec' = Some b \<and> length h' = length h
            \<and> h' ! b = h ! b \<and> p_coords (h' ! a) = cs
            \<and> v_comps vec' = map (np_cast (v_dtype vec))
                                (map2 (-) (p_coords (h' ! a)) (p_coords (h' ! b)))
            \<and> (v_dtype vec = Float64
                 \<longrightarrow> v_comps vec' = map2 (-) (p_coords (h' ! a)) (p_coords (h' ! b))))"
proof -
  from bv a b have f: "a < length h" "b < length h" "a \<noteq> b"
    by (auto elim!: bound_vecE)
  have id: "map (np_cast Float64) xs = xs" for xs by (induction xs) simp_all
  show ?thesis
    using Vector_set_p0_bound [OF bv a b val] Vector_set_p_bound [OF bv a b val] a b f
    by (simp add: id)
qed

theorem Vector_point_setters_frame_witness:
  "bound_vec [\<lparr>p_coords = [0, 0, 0], p_nd = 3, p_attrs = []\<rparr>,
              \<lparr>p_coords = [1, 2, 3], p_nd = 3, p_attrs = []\<rparr>]
     \<lparr>v_comps = [1, 2, 3], v_dtype = Float64, v_nd = 3, v_p = Some 1, v_p0 = Some 0,
      v_attrs = []\<rparr>
   \<and> (\<exists>h' vec'. Vector_set_p0 [\<lparr>p_coords = [0, 0, 0], p_nd = 3, p_attrs = []\<rparr>,
                               \<lparr>p_coords = [1, 2, 3], p_nd = 3, p_attrs = []\<rparr>]
          \<lparr>v_comps = [1, 2, 3], v_dtype = Float64, v_nd = 3, v_p = Some 1, v_p0 = Some 0,
           v_attrs = []\<rparr>
          [1 / 2, 1 / 2, 1 / 2] = Inr (h', vec')
        \<and> p_coords (h' ! 1) = [1, 2, 3] \<and> p_coords (h' ! 0) = [1 / 2, 1 / 2, 1 / 2]
        \<and> v_comps vec' = [1 / 2, 3 / 2, 5 / 2])"
proof -
  have bv: "bound_vec [\<lparr>p_coords = [0, 0, 0], p_nd = 3, p_attrs = []\<rparr>,
              \<lparr>p_coords = [1, 2, 3], p_nd = 3, p_attrs = []\<rparr>]
     \<lparr>v_comps = [1, 2, 3], v_dtype = Float64, v_nd = 3, v_p = Some 1, v_p0 = Some 0,
      v_attrs = []\<rparr>"
    by (simp add: bound_vec_def)
  have val: "np_assign_all
       (v_comps \<lparr>v_comps = [1, 2, 3], v_dtype = Float64, v_nd = 3, v_p = Some 1,
                 v_p0 = Some 0, v_attrs = []\<rparr>)
       [1 / 2, 1 / 2, 1 / 2] = Inr [1 / 2, 1 / 2, 1 / 2]"
    by (simp add: np_assign_all_def)
  show ?thesis
    using Vector_point_setters_frame [OF bv _ _ val, of 1 0] bv by auto
qed

text \<open>
  C1: the invariant \<open>v = p - p0\<close> does not survive a write of a component by index.
  \<^verbatim>\<open>vec = Vector([1, 2, 3])\<close> is bound and satisfies the invariant; after
  \<^verbatim>\<open>vec[0] = 5\<close> the components are \<open>(5, 2, 3)\<close> while \<open>p\<close> is still \<open>(1, 2, 3)\<close>
  and \<open>p0\<close> is \<open>(0, 0, 0)\<close>. The write by alias \<^verbatim>\<open>vec.x = 5\<close> does update \<open>p\<close>
  (lemma \<open>Vector_setattr_invariant\<close> above).
\<close>

theorem Vector_setitem_breaks_invariant:
  "(case Vector_new [] (VSeq [PyInt 1, PyInt 2, PyInt 3]) NdNone PNone PNone of
      Inl e \<Rightarrow> False
    | Inr (h, vec) \<Rightarrow>
        bound_vec h vec \<and> v_eq_p_minus_p0 h vec
        \<and> (case Vector_setitem h vec 0 5 of
              Inl e \<Rightarrow> False
            | Inr (h', vec') \<Rightarrow>
                v_comps vec' = [5, 2, 3]
                \<and> map_option (\<lambda>a. p_coords (h' ! a)) (v_p vec') = Some [1, 2, 3]
                \<and> map_option (\<lambda>b. p_coords (h' ! b)) (v_p0 vec') = Some [0, 0, 0]
                \<and> \<not> v_eq_p_minus_p0 h' vec'))"
  by (simp add: Vector_new_def Point_new_def py_bind_def np_add_def np_broadcast2_def
        init_aliases_def Vector_setattr_def sync_p_def Point_getattr_def Point_setattr_def
        np_zeros_def numeral_3_eq_3 bound_vec_def v_eq_p_minus_p0_def Vector_setitem_def
        py_index_def seq_dtype_def c_trunc_def Let_def)

end
